theory Spec2Isabelle
  imports Complex_Main "HOL-Library.Word"
begin

unbundle bit_operations_syntax

section \<open>Clock and timeouts\<close>

text \<open>
  \<^verbatim>\<open>ares_timeval_t\<close>: seconds are a signed 64-bit count, microseconds an unsigned
  count. Seconds are modelled as \<open>int\<close>: the only arithmetic on them is the difference
  of two clock samples in \<^verbatim>\<open>ares__timedout\<close> and the addition of \<^verbatim>\<open>timeadd\<close>, which
  stay inside the 64-bit range for the values a clock delivers (a signed overflow is
  undefined in C).
\<close>

record ares_timeval =
  sec :: int
  usec :: nat

text \<open>\<^verbatim>\<open>ares__timedout\<close>: true if \<open>now\<close> is exactly the check time or later.\<close>

definition ares__timedout :: "ares_timeval \<Rightarrow> ares_timeval \<Rightarrow> bool" where
  "ares__timedout now check =
     (let secs = sec now - sec check in
      if secs > 0 then True
      else if secs < 0 then False
      else int (usec now) - int (usec check) \<ge> 0)"

text \<open>
  The conversion of a \<^verbatim>\<open>size_t\<close> (64 bits) to \<^verbatim>\<open>ares_int64_t\<close>: values from
  \<open>2^63\<close> on become negative. The division of C rounds towards zero.
\<close>

definition int64_of_size :: "nat \<Rightarrow> int" where
  "int64_of_size m =
     (if m mod 2 ^ 64 < 2 ^ 63 then int (m mod 2 ^ 64) else int (m mod 2 ^ 64) - 2 ^ 64)"

definition c_div :: "int \<Rightarrow> int \<Rightarrow> int" where
  "c_div a b = (if a \<ge> 0 then a div b else - ((- a) div b))"

text \<open>
  \<^verbatim>\<open>timeadd\<close>: adds milliseconds to a time. The seconds to add are
  \<^verbatim>\<open>(ares_int64_t)millisecs / 1000\<close>, so a count of milliseconds from \<open>2^63\<close> on
  adds a negative number of seconds. The microsecond field is an \<^verbatim>\<open>unsigned int\<close>
  (32 bits) and wraps around.
\<close>

definition timeadd :: "ares_timeval \<Rightarrow> nat \<Rightarrow> ares_timeval" where
  "timeadd now millisecs =
     (let s = sec now + c_div (int64_of_size millisecs) 1000;
          u = (usec now + (((millisecs mod 2 ^ 64) mod 1000) * 1000) mod 2 ^ 32) mod 2 ^ 32
      in if u \<ge> 1000000
         then \<lparr> sec = s + int (u div 1000000), usec = u mod 1000000 \<rparr>
         else \<lparr> sec = s, usec = u \<rparr>)"

text \<open>The order on times the specification speaks of: \<open>deadline \<le> now\<close>.\<close>

definition tv_le :: "ares_timeval \<Rightarrow> ares_timeval \<Rightarrow> bool" where
  "tv_le a b = (sec a < sec b \<or> (sec a = sec b \<and> usec a \<le> usec b))"

section \<open>Status codes, DNS records and question equality\<close>

text \<open>
  Modelled from the spec: the values of \<^verbatim>\<open>ares_status_t\<close> are declared in a header
  that is not among the sources at hand; these are the kinds of the specification's
  error taxonomy.
\<close>

datatype ares_status =
    ARES_SUCCESS
  | ARES_EFORMERR
  | ARES_ESERVFAIL
  | ARES_ENOTIMP
  | ARES_EREFUSED
  | ARES_EBADFAMILY
  | ARES_EBADRESP
  | ARES_ECONNREFUSED
  | ARES_ETIMEOUT
  | ARES_ENOMEM
  | ARES_ECANCELLED
  | ARES_ENOSERVER

text \<open>
  The part of \<^verbatim>\<open>ares_dns_record_t\<close> that \<^verbatim>\<open>ares_process.c\<close> reads through the
  record accessors: the transaction id, the TC flag, the response code, the questions
  and the types of the resource records of the additional section. A question name is
  a C string or \<open>NULL\<close>; types and classes are the numeric values of their enums.
\<close>

datatype ares_dns_rcode =
    ARES_RCODE_NOERROR
  | ARES_RCODE_FORMERR
  | ARES_RCODE_SERVFAIL
  | ARES_RCODE_NXDOMAIN
  | ARES_RCODE_NOTIMP
  | ARES_RCODE_REFUSED
  | ARES_RCODE_OTHER nat

record ares_dns_qd =
  qd_name :: "string option"
  qtype :: nat
  qclass :: nat

record ares_dns_record =
  dns_id :: "16 word"
  dns_flag_tc :: bool
  dns_rcode :: ares_dns_rcode
  qd :: "ares_dns_qd list"
  additional :: "nat list"

definition ARES_REC_TYPE_OPT :: nat where
  "ARES_REC_TYPE_OPT = 41"

definition ares_dns_record_query_cnt :: "ares_dns_record \<Rightarrow> nat" where
  "ares_dns_record_query_cnt r = length (qd r)"

text \<open>\<^verbatim>\<open>ares_dns_record_query_get\<close> fails for an index that is out of range.\<close>

definition ares_dns_record_query_get :: "ares_dns_record \<Rightarrow> nat \<Rightarrow> ares_dns_qd option" where
  "ares_dns_record_query_get r i = (if i < length (qd r) then Some (qd r ! i) else None)"

text \<open>
  Modelled from the spec: \<^verbatim>\<open>ares_dns_get_opt_rr_const\<close> is not in the sources at
  hand; it yields the OPT record of the additional section, or \<open>NULL\<close>. The model
  keeps whether it is \<open>NULL\<close>.
\<close>

definition ares_dns_get_opt_rr_const :: "ares_dns_record \<Rightarrow> bool" where
  "ares_dns_get_opt_rr_const r = (ARES_REC_TYPE_OPT \<in> set (additional r))"

text \<open>
  Modelled from the spec: \<^verbatim>\<open>ares_streq\<close> and \<^verbatim>\<open>ares_strcaseeq\<close> are not in the
  sources at hand. The first is the case-sensitive comparison of two C strings, the
  second the ASCII-case-insensitive one: the letters \<open>A\<close> to \<open>Z\<close> are folded to
  \<open>a\<close> to \<open>z\<close> and nothing else is.
\<close>

definition ares_tolower :: "char \<Rightarrow> char" where
  "ares_tolower c =
     (let n = (of_char c :: nat) in if 65 \<le> n \<and> n \<le> 90 then char_of (n + 32) else c)"

definition ares_streq :: "string \<Rightarrow> string \<Rightarrow> bool" where
  "ares_streq a b = (a = b)"

definition ares_strcaseeq :: "string \<Rightarrow> string \<Rightarrow> bool" where
  "ares_strcaseeq a b = (map ares_tolower a = map ares_tolower b)"

text \<open>The channel flags that \<^verbatim>\<open>ares_process.c\<close> tests, with their values in \<^verbatim>\<open>ares.h\<close>.\<close>

definition ARES_FLAG_IGNTC :: "32 word" where
  "ARES_FLAG_IGNTC = push_bit 2 1"

definition ARES_FLAG_NOCHECKRESP :: "32 word" where
  "ARES_FLAG_NOCHECKRESP = push_bit 7 1"

definition ARES_FLAG_DNS0x20 :: "32 word" where
  "ARES_FLAG_DNS0x20 = push_bit 10 1"

text \<open>
  The loop of \<^verbatim>\<open>same_questions\<close> from index \<open>i\<close> on: every \<^verbatim>\<open>goto done\<close> of the
  source leaves with the result false, the end of the loop with the result true.
\<close>

function same_questions_from ::
  "32 word \<Rightarrow> bool \<Rightarrow> ares_dns_record \<Rightarrow> ares_dns_record \<Rightarrow> nat \<Rightarrow> bool" where
  "same_questions_from chflags tcp qrec arec i =
     (if i < ares_dns_record_query_cnt qrec then
        (case ares_dns_record_query_get qrec i of
           None \<Rightarrow> False
         | Some q \<Rightarrow>
            (case qd_name q of
               None \<Rightarrow> False
             | Some qname \<Rightarrow>
                (case ares_dns_record_query_get arec i of
                   None \<Rightarrow> False
                 | Some a \<Rightarrow>
                    (case qd_name a of
                       None \<Rightarrow> False
                     | Some aname \<Rightarrow>
                        if qtype q \<noteq> qtype a \<or> qclass q \<noteq> qclass a then False
                        else if chflags AND ARES_FLAG_DNS0x20 \<noteq> 0 \<and> \<not> tcp then
                          (if \<not> ares_streq qname aname then False
                           else same_questions_from chflags tcp qrec arec (i + 1))
                        else
                          (if \<not> ares_strcaseeq qname aname then False
                           else same_questions_from chflags tcp qrec arec (i + 1))))))
      else True)"
  by pat_completeness auto
termination
  by (relation "measure (\<lambda>(f, t, qrec, arec, i). ares_dns_record_query_cnt qrec - i)") auto

text \<open>
  \<^verbatim>\<open>same_questions\<close>, with the two fields of the query it reads (the outbound record
  and \<open>using_tcp\<close>) and the flags of the query's channel.
\<close>

definition same_questions :: "32 word \<Rightarrow> bool \<Rightarrow> ares_dns_record \<Rightarrow> ares_dns_record \<Rightarrow> bool" where
  "same_questions chflags tcp qrec arec =
     (if ares_dns_record_query_cnt qrec \<noteq> ares_dns_record_query_cnt arec then False
      else same_questions_from chflags tcp qrec arec 0)"

text \<open>
  The question equality of the specification: names are compared case-sensitively
  when \<open>cs\<close> holds and without regard to ASCII case otherwise; an absent name matches
  nothing.
\<close>

definition names_match :: "bool \<Rightarrow> string option \<Rightarrow> string option \<Rightarrow> bool" where
  "names_match cs qn an =
     (case (qn, an) of
        (Some x, Some y) \<Rightarrow> (if cs then x = y else map ares_tolower x = map ares_tolower y)
      | _ \<Rightarrow> False)"

text \<open>
  The loop of \<^verbatim>\<open>rewrite_without_edns\<close>: the index of the first OPT record of the
  additional section from index \<open>i\<close> on, if there is one.
\<close>

function find_opt_rr :: "nat list \<Rightarrow> nat \<Rightarrow> nat option" where
  "find_opt_rr rrs i =
     (if i < length rrs then
        (if rrs ! i = ARES_REC_TYPE_OPT then Some i else find_opt_rr rrs (i + 1))
      else None)"
  by pat_completeness auto
termination
  by (relation "measure (\<lambda>(rrs, i). length rrs - i)") auto

text \<open>
  \<^verbatim>\<open>rewrite_without_edns\<close> on the outbound record of a query: the OPT record is
  deleted (\<^verbatim>\<open>ares_dns_record_rr_del\<close>), or the status is \<^verbatim>\<open>ARES_EFORMERR\<close>.
\<close>

definition rewrite_without_edns :: "ares_dns_record \<Rightarrow> ares_status \<times> ares_dns_record" where
  "rewrite_without_edns r =
     (case find_opt_rr (additional r) 0 of
        Some i \<Rightarrow> (ARES_SUCCESS, r\<lparr>additional := take i (additional r) @ drop (i + 1) (additional r)\<rparr>)
      | None \<Rightarrow> (ARES_EFORMERR, r))"

section \<open>Channel state\<close>

text \<open>
  Servers, connections and queries are C structures that point at each other. In the
  model a server is named by its priority index \<open>idx\<close>, a connection and a query by
  a number (its address); the channel holds the connections and the live queries as
  partial maps from these numbers. Sizes and counters (\<^verbatim>\<open>size_t\<close>) are natural
  numbers: the program only counts them up by one.
\<close>

record ares_server =
  idx :: nat
  consec_failures :: nat
  next_retry_time :: ares_timeval
  connections :: "nat list"
  tcp_conn :: "nat option"

text \<open>
  A connection: \<open>conn_flag_tcp\<close> and \<open>conn_flag_tfo_initial\<close> are the bits
  \<^verbatim>\<open>ARES_CONN_FLAG_TCP\<close> and \<^verbatim>\<open>ARES_CONN_FLAG_TFO_INITIAL\<close> of \<^verbatim>\<open>conn->flags\<close>,
  \<open>conn_state_connected\<close> the bit \<^verbatim>\<open>ARES_CONN_STATE_CONNECTED\<close> of
  \<^verbatim>\<open>conn->state_flags\<close>.
\<close>

record ares_conn =
  conn_server :: nat
  conn_flag_tcp :: bool
  conn_flag_tfo_initial :: bool
  conn_state_connected :: bool
  total_queries :: nat
  queries_to_conn :: "nat list"
  out_buf :: "8 word list"

text \<open>
  A query. \<open>node_queries_by_timeout\<close> tells whether the query holds a node of the
  channel's list \<^verbatim>\<open>queries_by_timeout\<close>, \<open>node_queries_to_conn\<close> names the
  connection whose list \<^verbatim>\<open>queries_to_conn\<close> holds the query's node (\<open>None\<close> is the
  \<open>NULL\<close> pointer), \<open>node_all_queries\<close> tells whether it holds a node of
  \<^verbatim>\<open>all_queries\<close>.
\<close>

record ares_query =
  qid :: "16 word"
  q_timeout :: ares_timeval
  q_ts :: ares_timeval
  node_queries_by_timeout :: bool
  node_queries_to_conn :: "nat option"
  node_all_queries :: bool
  q_conn :: "nat option"
  q_query :: ares_dns_record
  try_count :: nat
  using_tcp :: bool
  no_retries :: bool
  error_status :: ares_status
  timeouts :: nat

text \<open>
  What the program does to the world outside the channel is recorded as a list of
  events, the latest last: the completion callback of a query (with the query, the
  status, the number of timeouts and the response), the server state callback (server,
  success, TCP), the pending-write notification, the queue-empty notification, and a
  flush of a connection's outbound buffer.
\<close>

datatype ares_event =
    EvCallback nat ares_status nat "ares_dns_record option"
  | EvServerState nat bool bool
  | EvNotifyPendingWrite
  | EvQueueEmpty
  | EvFlush nat

record ares_channel =
  ch_flags :: "32 word"
  tries :: nat
  rotate :: bool
  server_retry_chance :: "16 word"
  server_retry_delay :: nat
  maxtimeout :: nat
  udp_max_queries :: nat
  servers :: "ares_server list"
  conns :: "nat \<Rightarrow> ares_conn option"
  next_conn :: nat
  queries :: "nat \<Rightarrow> ares_query option"
  queries_by_qid :: "16 word \<Rightarrow> nat option"
  queries_by_timeout :: "nat list"
  all_queries :: "nat list"
  notify_pending_write :: bool
  notify_pending_write_cb :: bool
  server_state_cb :: bool
  queue_empty_cb :: bool
  rand_state :: nat
  clock_reads :: nat
  events :: "ares_event list"

text \<open>
  The collaborators of \<^verbatim>\<open>ares_process.c\<close> whose code is not among the sources at
  hand are parameters of the model. \<open>rand_bytes\<close> is the stream of bytes that
  \<^verbatim>\<open>ares__rand_bytes\<close> delivers and \<open>tvnow\<close> the sequence of clock samples of
  \<^verbatim>\<open>ares__tvnow\<close>; the channel counts how many were read. \<open>ares_dns_parse\<close> yields
  the parsed record, or nothing for a malformed message. \<open>ares_cookie_validate\<close> and
  \<open>ares__close_connection\<close> may change the channel in any way (the first may requeue
  the query, the second requeues the queries of the connection). \<open>ares_cookie_apply\<close>
  yields a status and the outbound record with its cookie, \<open>ares_dns_write_buf_tcp\<close>
  a status and the bytes it appends to the outbound buffer, \<open>ares__conn_flush\<close> a
  status and the bytes that stay in the buffer, \<open>ares__open_connection\<close> a status and
  the two state bits of the new connection (connected, TFO initial).
  \<open>slist_insert_ok\<close> and \<open>llist_insert_ok\<close> tell whether the node allocation of
  \<^verbatim>\<open>ares__slist_insert\<close> and of \<^verbatim>\<open>ares__llist_insert_last\<close> succeeds.
  \<open>query_callback\<close> is the completion callback of the host, called with the channel
  as it is when \<^verbatim>\<open>end_query\<close> invokes it, the query, the status, the number of
  timeouts and the response; the callback may submit new queries, so it yields a
  channel.
\<close>

record ares_env =
  rand_bytes :: "nat \<Rightarrow> 8 word"
  tvnow :: "nat \<Rightarrow> ares_timeval"
  ares_dns_parse :: "8 word list \<Rightarrow> ares_dns_record option"
  ares_cookie_validate ::
    "ares_channel \<Rightarrow> nat \<Rightarrow> ares_dns_record \<Rightarrow> nat \<Rightarrow> ares_timeval \<Rightarrow> ares_status \<times> ares_channel"
  ares_cookie_apply :: "ares_dns_record \<Rightarrow> nat \<Rightarrow> ares_timeval \<Rightarrow> ares_status \<times> ares_dns_record"
  ares_dns_write_buf_tcp :: "ares_dns_record \<Rightarrow> ares_status \<times> 8 word list"
  ares__conn_flush :: "nat \<Rightarrow> 8 word list \<Rightarrow> ares_status \<times> 8 word list"
  ares__open_connection :: "ares_channel \<Rightarrow> nat \<Rightarrow> bool \<Rightarrow> ares_status \<times> bool \<times> bool"
  ares__close_connection :: "ares_channel \<Rightarrow> nat \<Rightarrow> ares_status \<Rightarrow> ares_channel"
  ares_metrics_server_timeout :: "nat \<Rightarrow> ares_timeval \<Rightarrow> 64 word"
  slist_insert_ok :: "ares_channel \<Rightarrow> bool"
  llist_insert_ok :: "ares_channel \<Rightarrow> bool"
  query_callback ::
    "ares_channel \<Rightarrow> nat \<Rightarrow> ares_status \<Rightarrow> nat \<Rightarrow> ares_dns_record option \<Rightarrow> ares_channel"

definition add_event :: "ares_event \<Rightarrow> ares_channel \<Rightarrow> ares_channel" where
  "add_event e st = st\<lparr>events := events st @ [e]\<rparr>"

text \<open>\<^verbatim>\<open>ares__tvnow\<close> and \<^verbatim>\<open>ares__rand_bytes\<close> for one and for two bytes.\<close>

definition ares__tvnow :: "ares_env \<Rightarrow> ares_channel \<Rightarrow> ares_timeval \<times> ares_channel" where
  "ares__tvnow env st = (tvnow env (clock_reads st), st\<lparr>clock_reads := clock_reads st + 1\<rparr>)"

definition rand_u8 :: "ares_env \<Rightarrow> ares_channel \<Rightarrow> 8 word \<times> ares_channel" where
  "rand_u8 env st = (rand_bytes env (rand_state st), st\<lparr>rand_state := rand_state st + 1\<rparr>)"

text \<open>
  Two random bytes written over an \<^verbatim>\<open>unsigned short\<close>; the first byte is the low
  one (a little-endian host).
\<close>

definition rand_u16 :: "ares_env \<Rightarrow> ares_channel \<Rightarrow> 16 word \<times> ares_channel" where
  "rand_u16 env st =
     (ucast (rand_bytes env (rand_state st))
        + push_bit 8 (ucast (rand_bytes env (rand_state st + 1))),
      st\<lparr>rand_state := rand_state st + 2\<rparr>)"

section \<open>Server registry\<close>

text \<open>
  \<^verbatim>\<open>ares__slist_node_find\<close> on the server list: the server with the given index.
\<close>

definition find_server :: "ares_channel \<Rightarrow> nat \<Rightarrow> ares_server option" where
  "find_server st i = find (\<lambda>s. idx s = i) (servers st)"

text \<open>
  Modelled from the spec: the comparator of the server list is set where the list is
  created, outside the sources at hand. Servers are sorted by
  \<open>(consec_failures, idx)\<close>, both ascending.
\<close>

definition server_before :: "ares_server \<Rightarrow> ares_server \<Rightarrow> bool" where
  "server_before a b =
     (consec_failures a < consec_failures b
      \<or> (consec_failures a = consec_failures b \<and> idx a < idx b))"

fun server_insert :: "ares_server \<Rightarrow> ares_server list \<Rightarrow> ares_server list" where
  "server_insert s [] = [s]"
| "server_insert s (x # xs) = (if server_before s x then s # x # xs else x # server_insert s xs)"

text \<open>
  \<^verbatim>\<open>ares__slist_node_reinsert\<close> after a change of the server with index \<open>i\<close>: the
  changed server \<open>s\<close> takes its place in the order.
\<close>

definition server_reinsert :: "ares_server \<Rightarrow> ares_server list \<Rightarrow> ares_server list" where
  "server_reinsert s ss = server_insert s (filter (\<lambda>x. idx x \<noteq> idx s) ss)"

text \<open>A change of a server in place: the list order stays.\<close>

definition server_update :: "ares_server \<Rightarrow> ares_server list \<Rightarrow> ares_server list" where
  "server_update s ss = map (\<lambda>x. if idx x = idx s then s else x) ss"

text \<open>
  \<^verbatim>\<open>invoke_server_state_cb\<close>: nothing without a callback. The allocation of the
  buffer for the server's address is taken to succeed.
\<close>

definition invoke_server_state_cb :: "ares_channel \<Rightarrow> nat \<Rightarrow> bool \<Rightarrow> bool \<Rightarrow> ares_channel" where
  "invoke_server_state_cb st server success used_tcp =
     (if \<not> server_state_cb st then st
      else add_event (EvServerState server success used_tcp) st)"

text \<open>\<^verbatim>\<open>server_increment_failures\<close>, for the server with index \<open>server\<close>.\<close>

definition server_increment_failures ::
  "ares_env \<Rightarrow> ares_channel \<Rightarrow> nat \<Rightarrow> bool \<Rightarrow> ares_channel" where
  "server_increment_failures env st server used_tcp =
     (case find_server st server of
        None \<Rightarrow> st
      | Some s \<Rightarrow>
          let s1 = s\<lparr>consec_failures := consec_failures s + 1\<rparr>;
              st1 = st\<lparr>servers := server_reinsert s1 (servers st)\<rparr>;
              (next_retry, st2) = ares__tvnow env st1;
              s2 = s1\<lparr>next_retry_time := timeadd next_retry (server_retry_delay st2)\<rparr>;
              st3 = st2\<lparr>servers := server_update s2 (servers st2)\<rparr>
          in invoke_server_state_cb st3 server False used_tcp)"

text \<open>\<^verbatim>\<open>server_set_good\<close>.\<close>

definition server_set_good :: "ares_channel \<Rightarrow> nat \<Rightarrow> bool \<Rightarrow> ares_channel" where
  "server_set_good st server used_tcp =
     (case find_server st server of
        None \<Rightarrow> st
      | Some s \<Rightarrow>
          let s1 = (if consec_failures s > 0 then s\<lparr>consec_failures := 0\<rparr> else s);
              st1 = (if consec_failures s > 0
                     then st\<lparr>servers := server_reinsert s1 (servers st)\<rparr> else st);
              s2 = s1\<lparr>next_retry_time := \<lparr>sec = 0, usec = 0\<rparr>\<rparr>;
              st2 = st1\<lparr>servers := server_update s2 (servers st1)\<rparr>
          in invoke_server_state_cb st2 server True used_tcp)"

text \<open>
  The body of the scanning loop of \<^verbatim>\<open>ares__random_server\<close>: walk the list with a
  counter until the counter equals the drawn index.
\<close>

fun random_server_scan :: "'a list \<Rightarrow> nat \<Rightarrow> nat \<Rightarrow> 'a option" where
  "random_server_scan [] cnt i = None"
| "random_server_scan (s # ss) cnt i =
     (if cnt = i then Some s else random_server_scan ss (cnt + 1) i)"

text \<open>\<^verbatim>\<open>ares__random_server\<close>: one random byte, reduced modulo the number of servers.\<close>

definition ares__random_server ::
  "ares_env \<Rightarrow> ares_channel \<Rightarrow> ares_server option \<times> ares_channel" where
  "ares__random_server env st =
     (let num_servers = length (servers st) in
      if num_servers = 0 then (None, st)
      else
        let (c, st1) = rand_u8 env st;
            cnt = unat c;
            i = cnt mod num_servers
        in (random_server_scan (servers st1) 0 i, st1))"

text \<open>
  The retry scan of \<^verbatim>\<open>ares__failover_server\<close>: the first server in list order with
  failures whose retry time has passed.
\<close>

fun failover_scan :: "ares_timeval \<Rightarrow> ares_server list \<Rightarrow> ares_server option" where
  "failover_scan now [] = None"
| "failover_scan now (s # ss) =
     (if consec_failures s > 0 \<and> ares__timedout now (next_retry_time s) then Some s
      else failover_scan now ss)"

text \<open>
  \<^verbatim>\<open>ares__slist_first_val\<close> and \<^verbatim>\<open>ares__slist_last_val\<close>: \<open>NULL\<close> on an empty
  list.
\<close>

definition slist_first_val :: "'a list \<Rightarrow> 'a option" where
  "slist_first_val xs = (case xs of [] \<Rightarrow> None | x # _ \<Rightarrow> Some x)"

fun slist_last_val :: "'a list \<Rightarrow> 'a option" where
  "slist_last_val [] = None"
| "slist_last_val [x] = Some x"
| "slist_last_val (x # y # ys) = slist_last_val (y # ys)"

text \<open>
  \<^verbatim>\<open>ares__failover_server\<close>. The random value and the clock are read only on the
  paths where the source reads them.
\<close>

definition ares__failover_server ::
  "ares_env \<Rightarrow> ares_channel \<Rightarrow> ares_server option \<times> ares_channel" where
  "ares__failover_server env st =
     (case slist_first_val (servers st) of
        None \<Rightarrow> (None, st)
      | Some first_server \<Rightarrow>
          if (case slist_last_val (servers st) of
                None \<Rightarrow> False
              | Some last_server \<Rightarrow> consec_failures last_server = 0)
          then (Some first_server, st)
          else if server_retry_chance st = 0 then (Some first_server, st)
          else
            let (r, st1) = rand_u16 env st in
            if unat r mod unat (server_retry_chance st1) = 0 then
              (let (now, st2) = ares__tvnow env st1 in
               case failover_scan now (servers st2) of
                 Some node_val \<Rightarrow> (Some node_val, st2)
               | None \<Rightarrow> (Some first_server, st2))
            else (Some first_server, st1))"

text \<open>
  How many of the 256 values of the random byte make \<^verbatim>\<open>ares__random_server\<close> select
  the server \<open>s\<close>.
\<close>

definition rand_hits :: "ares_env \<Rightarrow> ares_channel \<Rightarrow> ares_server \<Rightarrow> nat" where
  "rand_hits env st s =
     length (filter (\<lambda>k. fst (ares__random_server (env\<lparr>rand_bytes := \<lambda>_. of_nat k\<rparr>) st) = Some s)
               [0..<256])"

section \<open>Single-precision arithmetic of the timeout jitter\<close>

text \<open>
  \<^verbatim>\<open>ares__calc_query_timeout\<close> computes the jitter in the C type \<^verbatim>\<open>float\<close>. The model
  is IEEE 754 binary32 with round to nearest, ties to even, each operation rounded on
  its own. A finite value that is not negative is a pair \<open>(m, e)\<close> of a mantissa and
  an exponent and stands for \<open>m * 2 ^ e\<close>; after rounding the mantissa has at most 24
  bits (or is \<open>2 ^ 24\<close> itself, after a carry). All values that occur here are far
  from the overflow and underflow thresholds of the format.
\<close>

type_synonym f32 = "nat \<times> int"

fun bitlen :: "nat \<Rightarrow> nat" where
  "bitlen n = (if n = 0 then 0 else Suc (bitlen (n div 2)))"

declare bitlen.simps [simp del]

text \<open>Dropping the low \<open>s\<close> bits of \<open>m\<close>, rounded to nearest, ties to even.\<close>

definition round_shift :: "nat \<Rightarrow> nat \<Rightarrow> nat" where
  "round_shift m s =
     (if s = 0 then m
      else
        let q = m div 2 ^ s; r = m mod 2 ^ s; h = 2 ^ (s - 1) in
        if r > h \<or> (r = h \<and> odd q) then q + 1 else q)"

definition f32_round :: "f32 \<Rightarrow> f32" where
  "f32_round x =
     (case x of (m, e) \<Rightarrow>
        if m < 2 ^ 24 then (m, e)
        else let s = bitlen m - 24 in (round_shift m s, e + int s))"

text \<open>The conversion \<^verbatim>\<open>(float)n\<close> of an unsigned integer.\<close>

definition f32_of_nat :: "nat \<Rightarrow> f32" where
  "f32_of_nat n = f32_round (n, 0)"

text \<open>
  The quotient \<^verbatim>\<open>(float)r / USHRT_MAX\<close> for a 16-bit \<open>r\<close>: both operands are exact,
  the quotient \<open>r / 65535\<close> is rounded to 24 bits. \<open>k\<close> is the scale at which the
  quotient lies between \<open>2 ^ 23\<close> and \<open>2 ^ 24\<close>.
\<close>

definition f32_div_ushrt_max :: "nat \<Rightarrow> f32" where
  "f32_div_ushrt_max r =
     (if r = 0 then (0, 0)
      else
        let k0 = 40 - bitlen r;
            k = (if (r * 2 ^ k0) div 65535 < 2 ^ 24 then k0 else k0 - 1);
            n = r * 2 ^ k;
            q = n div 65535;
            d = n mod 65535
        in ((if 2 * d > 65535 \<or> (2 * d = 65535 \<and> odd q) then q + 1 else q), - int k))"

text \<open>The product of two values, and the product with \<^verbatim>\<open>0.5f\<close>, which is exact.\<close>

definition f32_mul :: "f32 \<Rightarrow> f32 \<Rightarrow> f32" where
  "f32_mul x y = (case x of (m1, e1) \<Rightarrow> case y of (m2, e2) \<Rightarrow> f32_round (m1 * m2, e1 + e2))"

definition f32_half :: "f32 \<Rightarrow> f32" where
  "f32_half x = (case x of (m, e) \<Rightarrow> (m, e - 1))"

text \<open>The conversion \<^verbatim>\<open>(size_t)x\<close>: the fraction is cut off.\<close>

definition f32_to_size :: "f32 \<Rightarrow> nat" where
  "f32_to_size x = (case x of (m, e) \<Rightarrow> if e \<ge> 0 then m * 2 ^ nat e else m div 2 ^ nat (- e))"

text \<open>
  The amount that the jitter takes off:
  \<^verbatim>\<open>(size_t)((float)timeplus * (((float)r / USHRT_MAX) * 0.5f))\<close>.
\<close>

definition jitter_amount :: "nat \<Rightarrow> 16 word \<Rightarrow> nat" where
  "jitter_amount timeplus r =
     (let delta_multiplier = f32_half (f32_div_ushrt_max (unat r))
      in f32_to_size (f32_mul (f32_of_nat timeplus) delta_multiplier))"

section \<open>Timeout of an attempt\<close>

text \<open>
  \<^verbatim>\<open>ares__calc_query_timeout\<close>. \<^verbatim>\<open>size_t\<close> is taken to have 64 bits; the shift and
  the subtraction wrap around modulo \<open>2 ^ 64\<close> (the shift of the source is undefined
  for 64 rounds and more, where the model yields 0). The timeout of the server, named
  by its index, comes from \<^verbatim>\<open>ares_metrics_server_timeout\<close>.
\<close>

definition ares__calc_query_timeout ::
  "ares_env \<Rightarrow> ares_channel \<Rightarrow> ares_query \<Rightarrow> nat \<Rightarrow> ares_timeval \<Rightarrow> nat \<times> ares_channel" where
  "ares__calc_query_timeout env st query server now =
     (let timeout = unat (ares_metrics_server_timeout env server now);
          num_servers = length (servers st)
      in if num_servers = 0 then (0, st)
         else
           let rounds = try_count query div num_servers;
               timeplus1 = (if rounds > 0 then (timeout * 2 ^ rounds) mod 2 ^ 64 else timeout);
               timeplus2 = (if maxtimeout st \<noteq> 0 \<and> timeplus1 > maxtimeout st
                            then maxtimeout st else timeplus1);
               (timeplus3, st1) =
                 (if rounds > 0 then
                    (let (r, st1) = rand_u16 env st
                     in ((timeplus2 + 2 ^ 64 - jitter_amount timeplus2 r) mod 2 ^ 64, st1))
                  else (timeplus2, st))
           in ((if timeplus3 < timeout then timeout else timeplus3), st1))"

section \<open>Query table\<close>

text \<open>
  \<^verbatim>\<open>ares__slist_node_destroy\<close> of the query's node in \<^verbatim>\<open>queries_by_timeout\<close> and
  \<^verbatim>\<open>ares__llist_node_destroy\<close> of its node in a connection's list: nothing for a
  \<open>NULL\<close> node, otherwise the query leaves the list (a query owns at most one node of
  each list). The pointer fields are the caller's to clear.
\<close>

definition destroy_node_queries_by_timeout :: "ares_channel \<Rightarrow> nat \<Rightarrow> ares_channel" where
  "destroy_node_queries_by_timeout st q =
     (case queries st q of
        None \<Rightarrow> st
      | Some query \<Rightarrow>
          if node_queries_by_timeout query
          then st\<lparr>queries_by_timeout := removeAll q (queries_by_timeout st)\<rparr>
          else st)"

definition destroy_node_queries_to_conn :: "ares_channel \<Rightarrow> nat \<Rightarrow> ares_channel" where
  "destroy_node_queries_to_conn st q =
     (case queries st q of
        None \<Rightarrow> st
      | Some query \<Rightarrow>
          (case node_queries_to_conn query of
             None \<Rightarrow> st
           | Some c \<Rightarrow>
               (case conns st c of
                  None \<Rightarrow> st
                | Some cn \<Rightarrow>
                    st\<lparr>conns := (conns st)
                          (c \<mapsto> cn\<lparr>queries_to_conn := removeAll q (queries_to_conn cn)\<rparr>)\<rparr>)))"

text \<open>A change of the fields of a live query.\<close>

definition update_query :: "nat \<Rightarrow> (ares_query \<Rightarrow> ares_query) \<Rightarrow> ares_channel \<Rightarrow> ares_channel" where
  "update_query q f st = st\<lparr>queries := (queries st)(q := map_option f (queries st q))\<rparr>"

text \<open>\<^verbatim>\<open>ares__query_remove_from_conn\<close>.\<close>

definition ares__query_remove_from_conn :: "ares_channel \<Rightarrow> nat \<Rightarrow> ares_channel" where
  "ares__query_remove_from_conn st q =
     (let st1 = destroy_node_queries_by_timeout st q;
          st2 = destroy_node_queries_to_conn st1 q
      in update_query q
           (\<lambda>query. query\<lparr>node_queries_by_timeout := False,
                            node_queries_to_conn := None,
                            q_conn := None\<rparr>) st2)"

text \<open>\<^verbatim>\<open>ares_detach_query\<close>: the query leaves every list in which it is linked.\<close>

definition ares_detach_query :: "ares_channel \<Rightarrow> nat \<Rightarrow> ares_channel" where
  "ares_detach_query st q =
     (let st1 = ares__query_remove_from_conn st q in
      case queries st1 q of
        None \<Rightarrow> st1
      | Some query \<Rightarrow>
          let st2 = st1\<lparr>queries_by_qid := (queries_by_qid st1)(qid query := None)\<rparr>;
              st3 = (if node_all_queries query
                     then st2\<lparr>all_queries := removeAll q (all_queries st2)\<rparr> else st2)
          in update_query q (\<lambda>query. query\<lparr>node_all_queries := False\<rparr>) st3)"

text \<open>\<^verbatim>\<open>ares__free_query\<close>: after the detach the query's memory is released.\<close>

definition ares__free_query :: "ares_channel \<Rightarrow> nat \<Rightarrow> ares_channel" where
  "ares__free_query st q =
     (let st1 = ares_detach_query st q in st1\<lparr>queries := (queries st1)(q := None)\<rparr>)"

text \<open>
  Modelled from the spec: \<^verbatim>\<open>ares_queue_notify_empty\<close> is not in the sources at hand;
  it notifies the queue-empty observer iff the query table is empty.
\<close>

definition ares_queue_notify_empty :: "ares_channel \<Rightarrow> ares_channel" where
  "ares_queue_notify_empty st =
     (if queue_empty_cb st \<and> all_queries st = [] then add_event EvQueueEmpty st else st)"

text \<open>
  \<^verbatim>\<open>end_query\<close>: the completion callback is invoked, on the channel as it is on
  entry, with the status, the number of timeouts and the response; when it has
  returned, the invocation is recorded in the log and the query is freed. The
  statistics of \<^verbatim>\<open>ares_metrics_record\<close> are not part of the model.
\<close>

definition end_query ::
  "ares_env \<Rightarrow> ares_channel \<Rightarrow> nat \<Rightarrow> ares_status \<Rightarrow> ares_dns_record option \<Rightarrow> ares_channel" where
  "end_query env st q status dnsrec =
     (case queries st q of
        None \<Rightarrow> st
      | Some query \<Rightarrow>
          let st0 = query_callback env st q status (timeouts query) dnsrec;
              st1 = add_event (EvCallback q status (timeouts query) dnsrec) st0;
              st2 = ares__free_query st1 q
          in ares_queue_notify_empty st2)"

section \<open>Connections\<close>

text \<open>\<^verbatim>\<open>ares__fetch_connection\<close>.\<close>

definition ares__fetch_connection ::
  "ares_channel \<Rightarrow> ares_server \<Rightarrow> ares_query \<Rightarrow> nat option" where
  "ares__fetch_connection st server query =
     (if using_tcp query then tcp_conn server
      else
        (case connections server of
           [] \<Rightarrow> None
         | c # _ \<Rightarrow>
             (case conns st c of
                None \<Rightarrow> None
              | Some cn \<Rightarrow>
                  if conn_flag_tcp cn then None
                  else if udp_max_queries st > 0 \<and> total_queries cn \<ge> udp_max_queries st
                  then None
                  else Some c)))"

text \<open>
  Modelled from the spec: \<^verbatim>\<open>ares__open_connection\<close> is not in the sources at hand.
  It fails with a status, or it makes a new connection to the server, which becomes
  the first of the server's connection list and, for TCP, the server's TCP
  connection. The new connection has no queries and empty buffers.
\<close>

definition open_connection ::
  "ares_env \<Rightarrow> ares_channel \<Rightarrow> ares_server \<Rightarrow> bool \<Rightarrow> ares_status \<times> nat \<times> ares_channel" where
  "open_connection env st server is_tcp =
     (case ares__open_connection env st (idx server) is_tcp of
        (status, conn_up, tfo) \<Rightarrow>
          if status \<noteq> ARES_SUCCESS then (status, 0, st)
          else
            let c = next_conn st;
                cn = \<lparr>conn_server = idx server, conn_flag_tcp = is_tcp,
                      conn_flag_tfo_initial = tfo, conn_state_connected = conn_up,
                      total_queries = 0, queries_to_conn = [], out_buf = []\<rparr>;
                s1 = server\<lparr>connections := c # connections server,
                             tcp_conn := (if is_tcp then Some c else tcp_conn server)\<rparr>
            in (ARES_SUCCESS, c,
                st\<lparr>conns := (conns st)(c \<mapsto> cn), next_conn := c + 1,
                    servers := server_update s1 (servers st)\<rparr>))"

text \<open>
  \<^verbatim>\<open>ares__conn_flush\<close> is not in the sources at hand: the flush is recorded as an
  event, and the collaborator tells the status and what stays in the buffer. The
  result is \<open>None\<close> for a connection that is not live.
\<close>

definition conn_flush ::
  "ares_env \<Rightarrow> ares_channel \<Rightarrow> nat \<Rightarrow> (ares_status \<times> ares_channel) option" where
  "conn_flush env st c =
     (case conns st c of
        None \<Rightarrow> None
      | Some cn \<Rightarrow>
          (case ares__conn_flush env c (out_buf cn) of
             (status, rest) \<Rightarrow>
               Some (status,
                     add_event (EvFlush c) (st\<lparr>conns := (conns st)(c \<mapsto> cn\<lparr>out_buf := rest\<rparr>)\<rparr>))))"

text \<open>
  \<^verbatim>\<open>ares__conn_query_write\<close>. The result is \<open>None\<close> when the connection or the query
  is not live, which the callers exclude.
\<close>

definition ares__conn_query_write ::
  "ares_env \<Rightarrow> ares_channel \<Rightarrow> nat \<Rightarrow> nat \<Rightarrow> ares_timeval \<Rightarrow> (ares_status \<times> ares_channel) option" where
  "ares__conn_query_write env st c q now =
     (case conns st c of
        None \<Rightarrow> None
      | Some cn \<Rightarrow>
     (case queries st q of
        None \<Rightarrow> None
      | Some query \<Rightarrow>
     (case ares_cookie_apply env (q_query query) c now of
        (status1, rec1) \<Rightarrow>
          let st1 = update_query q (\<lambda>x. x\<lparr>q_query := rec1\<rparr>) st in
          if status1 \<noteq> ARES_SUCCESS then Some (status1, st1)
          else
            (case ares_dns_write_buf_tcp env rec1 of
               (status2, bytes) \<Rightarrow>
                 if status2 \<noteq> ARES_SUCCESS then Some (status2, st1)
                 else
                   let st2 = st1\<lparr>conns := (conns st1)(c \<mapsto> cn\<lparr>out_buf := out_buf cn @ bytes\<rparr>)\<rparr> in
                   if conn_flag_tcp cn \<and> \<not> conn_state_connected cn \<and> \<not> conn_flag_tfo_initial cn
                   then Some (ARES_SUCCESS, st2)
                   else if notify_pending_write_cb st2 \<and> \<not> notify_pending_write st2
                           \<and> conn_flag_tcp cn
                   then Some (ARES_SUCCESS,
                              add_event EvNotifyPendingWrite (st2\<lparr>notify_pending_write := True\<rparr>))
                   else conn_flush env st2 c))))"

text \<open>\<^verbatim>\<open>handle_conn_error\<close>.\<close>

definition handle_conn_error ::
  "ares_env \<Rightarrow> ares_channel \<Rightarrow> nat \<Rightarrow> bool \<Rightarrow> ares_status \<Rightarrow> ares_channel" where
  "handle_conn_error env st c critical_failure failure_status =
     (case conns st c of
        None \<Rightarrow> st
      | Some cn \<Rightarrow>
          let st1 = (if critical_failure
                     then server_increment_failures env st (conn_server cn) (conn_flag_tcp cn)
                     else st)
          in ares__close_connection env st1 c failure_status)"

text \<open>
  Modelled from the spec: the comparator of \<^verbatim>\<open>queries_by_timeout\<close> is set where the
  list is created, outside the sources at hand. The list is sorted by deadline,
  ascending; a new node goes behind the nodes with the same deadline.
\<close>

fun timeout_insert ::
  "(nat \<Rightarrow> ares_timeval) \<Rightarrow> nat \<Rightarrow> nat list \<Rightarrow> nat list" where
  "timeout_insert dl q [] = [q]"
| "timeout_insert dl q (x # xs) =
     (if tv_le (dl x) (dl q) then x # timeout_insert dl q xs else q # x # xs)"

definition deadline_of :: "ares_channel \<Rightarrow> nat \<Rightarrow> ares_timeval" where
  "deadline_of st q = (case queries st q of None \<Rightarrow> \<lparr>sec = 0, usec = 0\<rparr> | Some query \<Rightarrow> q_timeout query)"

section \<open>Dispatcher and requeue\<close>

text \<open>
  The last part of \<^verbatim>\<open>ares__send_query\<close>, after the query has been written to the
  connection \<open>c\<close> of the server with index \<open>server\<close>: the deadline is computed and
  the query is linked into \<^verbatim>\<open>queries_by_timeout\<close> and into the connection's list.
  The two \<^verbatim>\<open>ENOMEM\<close> branches are the failed node allocations. The result is \<open>None\<close>
  when the query or the connection is not live.
\<close>

definition send_query_attach ::
  "ares_env \<Rightarrow> ares_channel \<Rightarrow> nat \<Rightarrow> nat \<Rightarrow> nat \<Rightarrow> ares_timeval
     \<Rightarrow> (ares_status \<times> ares_channel) option" where
  "send_query_attach env st c q server now =
     (case queries st q of
        None \<Rightarrow> None
      | Some query \<Rightarrow>
          (case ares__calc_query_timeout env st query server now of
             (timeplus, st1) \<Rightarrow>
               let st2 = destroy_node_queries_by_timeout st1 q;
                   st3 = update_query q (\<lambda>x. x\<lparr>q_ts := now, q_timeout := timeadd now timeplus\<rparr>) st2
               in
               if \<not> slist_insert_ok env st3 then
                 Some (ARES_ENOMEM,
                       end_query env (update_query q (\<lambda>x. x\<lparr>node_queries_by_timeout := False\<rparr>) st3)
                         q ARES_ENOMEM None)
               else
                 let st4 = update_query q (\<lambda>x. x\<lparr>node_queries_by_timeout := True\<rparr>)
                             (st3\<lparr>queries_by_timeout :=
                                    timeout_insert (deadline_of st3) q (queries_by_timeout st3)\<rparr>);
                     st5 = destroy_node_queries_to_conn st4 q
                 in
                 if \<not> llist_insert_ok env st5 then
                   Some (ARES_ENOMEM,
                         end_query env (update_query q (\<lambda>x. x\<lparr>node_queries_to_conn := None\<rparr>) st5)
                           q ARES_ENOMEM None)
                 else
                   (case conns st5 c of
                      None \<Rightarrow> None
                    | Some cn \<Rightarrow>
                        let st6 = st5\<lparr>conns := (conns st5)
                                     (c \<mapsto> cn\<lparr>queries_to_conn := queries_to_conn cn @ [q]\<rparr>)\<rparr>;
                            st7 = update_query q
                                    (\<lambda>x. x\<lparr>node_queries_to_conn := Some c, q_conn := Some c\<rparr>) st6
                        in
                        (case conns st7 c of
                           None \<Rightarrow> None
                         | Some cn7 \<Rightarrow>
                             Some (ARES_SUCCESS,
                                   st7\<lparr>conns := (conns st7)
                                         (c \<mapsto> cn7\<lparr>total_queries := total_queries cn7 + 1\<rparr>)\<rparr>)))))"

text \<open>The server selection at the head of \<^verbatim>\<open>ares__send_query\<close>.\<close>

definition select_server :: "ares_env \<Rightarrow> ares_channel \<Rightarrow> ares_server option \<times> ares_channel" where
  "select_server env st =
     (if rotate st then ares__random_server env st else ares__failover_server env st)"

text \<open>
  The connection of \<^verbatim>\<open>ares__send_query\<close>: the fetched one, or a newly opened one
  with the status of \<^verbatim>\<open>ares__open_connection\<close>.
\<close>

definition fetch_or_open ::
  "ares_env \<Rightarrow> ares_channel \<Rightarrow> ares_server \<Rightarrow> ares_query \<Rightarrow> ares_status \<times> nat \<times> ares_channel" where
  "fetch_or_open env st server query =
     (case ares__fetch_connection st server query of
        Some c \<Rightarrow> (ARES_SUCCESS, c, st)
      | None \<Rightarrow> open_connection env st server (using_tcp query))"

text \<open>
  \<^verbatim>\<open>ares__send_query\<close> and \<^verbatim>\<open>ares__requeue_query\<close> call each other. The first
  argument bounds the depth of these calls: the result is \<open>None\<close> when the bound is
  used up, and also when a query or connection that the source dereferences is not
  live.
\<close>

fun ares__send_query ::
  "nat \<Rightarrow> ares_env \<Rightarrow> ares_channel \<Rightarrow> nat \<Rightarrow> ares_timeval \<Rightarrow> (ares_status \<times> ares_channel) option"
and ares__requeue_query ::
  "nat \<Rightarrow> ares_env \<Rightarrow> ares_channel \<Rightarrow> nat \<Rightarrow> ares_timeval \<Rightarrow> ares_status \<Rightarrow> bool
     \<Rightarrow> ares_dns_record option \<Rightarrow> (ares_status \<times> ares_channel) option"
where
  "ares__send_query 0 env st q now = None"
| "ares__send_query (Suc n) env st q now =
     (case queries st q of
        None \<Rightarrow> None
      | Some query \<Rightarrow>
     (case select_server env st of
        (None, st1) \<Rightarrow> Some (ARES_ENOSERVER, end_query env st1 q ARES_ENOSERVER None)
      | (Some server, st1) \<Rightarrow>
     (case fetch_or_open env st1 server query of
        (ostatus, c, st2) \<Rightarrow>
          if ostatus = ARES_ECONNREFUSED \<or> ostatus = ARES_EBADFAMILY then
            ares__requeue_query n env
              (server_increment_failures env st2 (idx server) (using_tcp query))
              q now ostatus True None
          else if ostatus \<noteq> ARES_SUCCESS then
            Some (ostatus, end_query env st2 q ostatus None)
          else
            (case ares__conn_query_write env st2 c q now of
               None \<Rightarrow> None
             | Some (wstatus, st3) \<Rightarrow>
                 if wstatus = ARES_SUCCESS then
                   send_query_attach env st3 c q (idx server) now
                 else if wstatus = ARES_ENOMEM then
                   Some (wstatus, end_query env st3 q wstatus None)
                 else if wstatus = ARES_ECONNREFUSED \<or> wstatus = ARES_EBADFAMILY then
                   (case ares__requeue_query n env
                           (handle_conn_error env st3 c True wstatus) q now wstatus True None of
                      None \<Rightarrow> None
                    | Some (rstatus, st4) \<Rightarrow>
                        Some (if rstatus = ARES_ETIMEOUT then ARES_ECONNREFUSED else rstatus, st4))
                 else
                   ares__requeue_query n env
                     (server_increment_failures env st3 (idx server) (using_tcp query))
                     q now wstatus True None))))"
| "ares__requeue_query 0 env st q now status inc_try_count dnsrec = None"
| "ares__requeue_query (Suc n) env st q now status inc_try_count dnsrec =
     (let max_tries = length (servers st) * tries st;
          st1 = ares__query_remove_from_conn st q;
          st2 = (if status \<noteq> ARES_SUCCESS
                 then update_query q (\<lambda>x. x\<lparr>error_status := status\<rparr>) st1 else st1);
          st3 = (if inc_try_count
                 then update_query q (\<lambda>x. x\<lparr>try_count := try_count x + 1\<rparr>) st2 else st2)
      in case queries st3 q of
           None \<Rightarrow> None
         | Some query \<Rightarrow>
             if try_count query < max_tries \<and> \<not> no_retries query then
               ares__send_query n env st3 q now
             else
               let st4 = (if error_status query = ARES_SUCCESS
                          then update_query q (\<lambda>x. x\<lparr>error_status := ARES_ETIMEOUT\<rparr>) st3
                          else st3)
               in (case queries st4 q of
                     None \<Rightarrow> None
                   | Some query4 \<Rightarrow>
                       Some (ARES_ETIMEOUT, end_query env st4 q (error_status query4) dnsrec)))"

section \<open>Response handler\<close>

text \<open>
  \<^verbatim>\<open>process_answer\<close> for the message \<open>abuf\<close> read from connection \<open>c\<close>. The server
  of the connection is read on entry, as in the source. The first argument bounds the
  calls of the dispatcher; the paths that end before the dispatcher do not depend on
  it. The cache of \<^verbatim>\<open>ares_qcache_insert\<close> and the release of the parsed record are
  not part of the model.
\<close>

definition process_answer ::
  "nat \<Rightarrow> ares_env \<Rightarrow> ares_channel \<Rightarrow> 8 word list \<Rightarrow> nat \<Rightarrow> ares_timeval
     \<Rightarrow> (ares_status \<times> ares_channel) option" where
  "process_answer n env st abuf c now =
     (let server = map_option conn_server (conns st c) in
      if length abuf = 0 then Some (ARES_SUCCESS, st)
      else
     (case ares_dns_parse env abuf of
        None \<Rightarrow> Some (ARES_EBADRESP, st)
      | Some rdnsrec \<Rightarrow>
     (case queries_by_qid st (dns_id rdnsrec) of
        None \<Rightarrow> Some (ARES_SUCCESS, st)
      | Some q \<Rightarrow>
     (case queries st q of
        None \<Rightarrow> None
      | Some query \<Rightarrow>
          if \<not> same_questions (ch_flags st) (using_tcp query) (q_query query) rdnsrec
          then Some (ARES_SUCCESS, st)
          else
     (case ares_cookie_validate env st q rdnsrec c now of
        (cstatus, st1) \<Rightarrow>
          if cstatus \<noteq> ARES_SUCCESS then Some (ARES_SUCCESS, st1)
          else
            let st2 = update_query q (\<lambda>x. x\<lparr>node_queries_to_conn := None\<rparr>)
                        (destroy_node_queries_to_conn st1 q)
            in
     (case queries st2 q of
        None \<Rightarrow> None
      | Some query2 \<Rightarrow>
     (case conns st2 c of
        None \<Rightarrow> None
      | Some cn \<Rightarrow>
     (case server of
        None \<Rightarrow> None
      | Some srv \<Rightarrow>
          if dns_rcode rdnsrec = ARES_RCODE_FORMERR
             \<and> ares_dns_get_opt_rr_const (q_query query2)
             \<and> \<not> ares_dns_get_opt_rr_const rdnsrec
          then
            (case rewrite_without_edns (q_query query2) of
               (rstatus, rec') \<Rightarrow>
                 let st3 = update_query q (\<lambda>x. x\<lparr>q_query := rec'\<rparr>) st2 in
                 if rstatus \<noteq> ARES_SUCCESS then Some (rstatus, end_query env st3 q rstatus None)
                 else
                   (case ares__send_query n env st3 q now of
                      None \<Rightarrow> None
                    | Some (_, st4) \<Rightarrow> Some (ARES_SUCCESS, st4)))
          else if dns_flag_tc rdnsrec \<and> \<not> conn_flag_tcp cn
                  \<and> \<not> (ch_flags st2 AND ARES_FLAG_IGNTC \<noteq> 0)
          then
            (case ares__send_query n env (update_query q (\<lambda>x. x\<lparr>using_tcp := True\<rparr>) st2) q now of
               None \<Rightarrow> None
             | Some (_, st4) \<Rightarrow> Some (ARES_SUCCESS, st4))
          else if \<not> (ch_flags st2 AND ARES_FLAG_NOCHECKRESP \<noteq> 0)
                  \<and> (dns_rcode rdnsrec = ARES_RCODE_SERVFAIL
                     \<or> dns_rcode rdnsrec = ARES_RCODE_NOTIMP
                     \<or> dns_rcode rdnsrec = ARES_RCODE_REFUSED)
          then
            (let status = (case dns_rcode rdnsrec of
                             ARES_RCODE_SERVFAIL \<Rightarrow> ARES_ESERVFAIL
                           | ARES_RCODE_NOTIMP \<Rightarrow> ARES_ENOTIMP
                           | ARES_RCODE_REFUSED \<Rightarrow> ARES_EREFUSED
                           | _ \<Rightarrow> ARES_SUCCESS);
                 st3 = server_increment_failures env st2 srv (using_tcp query2)
             in case ares__requeue_query n env st3 q now status True (Some rdnsrec) of
                  None \<Rightarrow> None
                | Some (_, st4) \<Rightarrow> Some (ARES_SUCCESS, st4))
          else
            Some (ARES_SUCCESS,
                  end_query env (server_set_good st2 srv (using_tcp query2)) q ARES_SUCCESS
                    (Some rdnsrec))))))))))"

section \<open>Timeout processor\<close>


section \<open>Reader\<close>

section \<open>Example channel\<close>

text \<open>
  A channel without servers, connections and queries, and collaborators that always
  succeed; the concrete instances of the theorems below start from them.
\<close>

definition empty_channel :: ares_channel where
  "empty_channel =
     \<lparr>ch_flags = 0, tries = 2, rotate = False, server_retry_chance = 10,
      server_retry_delay = 5000, maxtimeout = 0, udp_max_queries = 0, servers = [],
      conns = Map.empty, next_conn = 0, queries = Map.empty, queries_by_qid = Map.empty,
      queries_by_timeout = [], all_queries = [], notify_pending_write = False,
      notify_pending_write_cb = False, server_state_cb = False, queue_empty_cb = False,
      rand_state = 0, clock_reads = 0, events = []\<rparr>"

definition plain_env :: ares_env where
  "plain_env =
     \<lparr>rand_bytes = (\<lambda>_. 0),
      tvnow = (\<lambda>_. \<lparr>sec = 100, usec = 0\<rparr>),
      ares_dns_parse = (\<lambda>_. None),
      ares_cookie_validate = (\<lambda>st q r c now. (ARES_SUCCESS, st)),
      ares_cookie_apply = (\<lambda>r c now. (ARES_SUCCESS, r)),
      ares_dns_write_buf_tcp = (\<lambda>r. (ARES_SUCCESS, [0, 1, 7])),
      ares__conn_flush = (\<lambda>c buf. (ARES_SUCCESS, [])),
      ares__open_connection = (\<lambda>st s t. (ARES_SUCCESS, True, False)),
      ares__close_connection = (\<lambda>st c status. st),
      ares_metrics_server_timeout = (\<lambda>s now. 2000),
      slist_insert_ok = (\<lambda>_. True),
      llist_insert_ok = (\<lambda>_. True),
      query_callback = (\<lambda>st q status t dnsrec. st)\<rparr>"

definition example_server :: "nat \<Rightarrow> nat \<Rightarrow> ares_timeval \<Rightarrow> ares_server" where
  "example_server i f t =
     \<lparr>idx = i, consec_failures = f, next_retry_time = t, connections = [], tcp_conn = None\<rparr>"

definition example_conn :: "nat \<Rightarrow> bool \<Rightarrow> nat list \<Rightarrow> ares_conn" where
  "example_conn s is_tcp qs =
     \<lparr>conn_server = s, conn_flag_tcp = is_tcp, conn_flag_tfo_initial = False,
      conn_state_connected = True, total_queries = length qs, queries_to_conn = qs,
      out_buf = []\<rparr>"

definition example_record :: "16 word \<Rightarrow> bool \<Rightarrow> ares_dns_rcode \<Rightarrow> ares_dns_record" where
  "example_record i tc rc =
     \<lparr>dns_id = i, dns_flag_tc = tc, dns_rcode = rc,
      qd = [\<lparr>qd_name = Some ''a.b'', qtype = 1, qclass = 1\<rparr>], additional = []\<rparr>"

text \<open>A query with id \<open>i\<close>, attached to the connection \<open>c\<close> or detached.\<close>

definition example_query :: "16 word \<Rightarrow> nat option \<Rightarrow> ares_query" where
  "example_query i c =
     \<lparr>qid = i, q_timeout = \<lparr>sec = 102, usec = 0\<rparr>, q_ts = \<lparr>sec = 100, usec = 0\<rparr>,
      node_queries_by_timeout = (c \<noteq> None), node_queries_to_conn = c,
      node_all_queries = True, q_conn = c,
      q_query = example_record i False ARES_RCODE_NOERROR,
      try_count = 0, using_tcp = False, no_retries = False,
      error_status = ARES_SUCCESS, timeouts = 0\<rparr>"

text \<open>
  A channel with one server (index 0), one UDP connection (number 0) to it and one
  query (number 0, id 7) in flight on that connection.
\<close>

definition example_channel :: ares_channel where
  "example_channel =
     empty_channel
       \<lparr>servers := [(example_server 0 0 \<lparr>sec = 0, usec = 0\<rparr>)\<lparr>connections := [0]\<rparr>],
        conns := [0 \<mapsto> example_conn 0 False [0]],
        next_conn := 1,
        queries := [0 \<mapsto> example_query 7 (Some 0)],
        queries_by_qid := [7 \<mapsto> 0],
        queries_by_timeout := [0],
        all_queries := [0]\<rparr>"



section \<open>Well-formed channels\<close>



text \<open>
  The query \<open>q\<close> is linked in the list \<^verbatim>\<open>queries_to_conn\<close> of the live connection
  \<open>c\<close>.
\<close>

definition in_conn :: "ares_channel \<Rightarrow> nat \<Rightarrow> nat \<Rightarrow> bool" where
  "in_conn st c q = (case conns st c of None \<Rightarrow> False | Some cn \<Rightarrow> q \<in> set (queries_to_conn cn))"

text \<open>
  The node pointers of the live queries agree with the lists: a query holds a node of
  \<^verbatim>\<open>queries_by_timeout\<close> iff it is in that list, and its connection node names the
  connection in whose list it is. Connections are numbered below \<open>next_conn\<close>.
\<close>

definition links_ok :: "ares_channel \<Rightarrow> bool" where
  "links_ok st =
     ((\<forall>c. next_conn st \<le> c \<longrightarrow> conns st c = None)
      \<and> (\<forall>q x. queries st q = Some x \<longrightarrow>
             node_queries_by_timeout x = (q \<in> set (queries_by_timeout st))
             \<and> (\<forall>c. (node_queries_to_conn x = Some c) = in_conn st c q)))"

text \<open>
  The three-way equivalence of the specification for the query \<open>q\<close>, if it is live:
  it has a connection iff it is linked in some connection's list iff it is in
  \<^verbatim>\<open>queries_by_timeout\<close>.
\<close>

definition three_way :: "ares_channel \<Rightarrow> nat \<Rightarrow> bool" where
  "three_way st q =
     (\<forall>x. queries st q = Some x \<longrightarrow>
        ((q_conn x \<noteq> None) = (\<exists>c. in_conn st c q))
        \<and> ((\<exists>c. in_conn st c q) = (q \<in> set (queries_by_timeout st))))"

definition table_inv :: "ares_channel \<Rightarrow> bool" where
  "table_inv st = (links_ok st \<and> (\<forall>q. three_way st q))"






text \<open>
  The invariant for the queries outside \<open>Q\<close>. The queries of \<open>Q\<close> are the ones that are
  being worked on: a query is half detached between its removal from the connection's
  list in \<^verbatim>\<open>process_answer\<close> and its requeue or its release, also while its
  completion callback runs.
\<close>

definition table_inv_except :: "ares_channel \<Rightarrow> nat set \<Rightarrow> bool" where
  "table_inv_except st Q = (links_ok st \<and> (\<forall>q. q \<notin> Q \<longrightarrow> three_way st q))"



section \<open>Verified properties\<close>

subsection \<open>Time comparison\<close>

lemma timedout_iff: "ares__timedout now check = tv_le check now"
  by (auto simp: ares__timedout_def tv_le_def Let_def)

subsection \<open>Failover selection\<close>

lemma failover_scan_find:
  "failover_scan now ss =
     find (\<lambda>s. consec_failures s > 0 \<and> tv_le (next_retry_time s) now) ss"
  by (induction ss) (simp_all add: timedout_iff)

lemma slist_last_val_last: "xs \<noteq> [] \<Longrightarrow> slist_last_val xs = Some (last xs)"
  by (induction xs rule: slist_last_val.induct) simp_all

text \<open>
  Claim C2. In failover mode, for a non-empty server list, the selection returns the
  first server of the sorted sequence when the last server has no failures or
  \<open>server_retry_chance\<close> is zero; otherwise, when the drawn 16-bit value \<open>r\<close>
  satisfies \<open>r mod server_retry_chance = 0\<close>, it returns the first server in sorted
  order with \<open>consec_failures > 0\<close> whose \<open>next_retry_time\<close> is not after \<open>now\<close>, if
  there is one; in every remaining case it returns the first server.
\<close>

theorem failover_server_selection:
  assumes "servers st \<noteq> []"
  shows "fst (ares__failover_server env st) =
     Some (if consec_failures (last (servers st)) = 0 \<or> server_retry_chance st = 0
           then hd (servers st)
           else if unat (fst (rand_u16 env st)) mod unat (server_retry_chance st) = 0 then
             (case find (\<lambda>s. consec_failures s > 0
                              \<and> tv_le (next_retry_time s) (tvnow env (clock_reads st)))
                     (servers st) of
                Some s \<Rightarrow> s
              | None \<Rightarrow> hd (servers st))
           else hd (servers st))"
proof -
  obtain s ss where ss: "servers st = s # ss"
    using assms by (cases "servers st") auto
  have l: "slist_last_val (servers st) = Some (last (servers st))"
    using assms by (rule slist_last_val_last)
  have f: "slist_first_val (servers st) = Some (hd (servers st))"
    by (simp add: ss slist_first_val_def)
  show ?thesis
    unfolding ares__failover_server_def f l failover_scan_find
    by (simp add: rand_u16_def ares__tvnow_def split: option.split)
qed

theorem failover_server_selection_witness:
  "servers (empty_channel\<lparr>servers :=
        [example_server 0 1 \<lparr>sec = 200, usec = 0\<rparr>, example_server 1 2 \<lparr>sec = 50, usec = 7\<rparr>]\<rparr>) \<noteq> []
   \<and> fst (ares__failover_server plain_env (empty_channel\<lparr>servers :=
        [example_server 0 1 \<lparr>sec = 200, usec = 0\<rparr>, example_server 1 2 \<lparr>sec = 50, usec = 7\<rparr>]\<rparr>))
     = Some (example_server 1 2 \<lparr>sec = 50, usec = 7\<rparr>)"
  using failover_server_selection [of "empty_channel\<lparr>servers :=
        [example_server 0 1 \<lparr>sec = 200, usec = 0\<rparr>, example_server 1 2 \<lparr>sec = 50, usec = 7\<rparr>]\<rparr>"
        plain_env]
  by (simp add: empty_channel_def plain_env_def example_server_def rand_u16_def tv_le_def)

subsection \<open>Random selection\<close>

lemma scan_nth: "i < length ss \<Longrightarrow> random_server_scan ss cnt (cnt + i) = Some (ss ! i)"
proof (induction ss arbitrary: cnt i)
  case Nil
  then show ?case by simp
next
  case (Cons s ss)
  show ?case
  proof (cases i)
    case 0
    then show ?thesis by simp
  next
    case (Suc k)
    with Cons.prems have "k < length ss" by simp
    from Cons.IH [OF this, of "cnt + 1"] Suc show ?thesis by simp
  qed
qed

lemma random_server_nth:
  "servers st \<noteq> [] \<Longrightarrow>
     fst (ares__random_server env st)
       = Some (servers st ! (unat (rand_bytes env (rand_state st)) mod length (servers st)))"
  using scan_nth [of "unat (rand_bytes env (rand_state st)) mod length (servers st)" "servers st" 0]
  by (simp add: ares__random_server_def rand_u8_def Let_def)

lemma div_step:
  assumes "i < (n::nat)"
  shows "(m + n - i) div n = (m + n - 1 - i) div n + (if m mod n = i then 1 else 0)"
proof -
  define q r where "q = m div n" and "r = m mod n"
  have m: "m = q * n + r" and r: "r < n"
    using assms by (simp_all add: q_def r_def)
  have n0: "n \<noteq> 0" using assms by simp
  have a: "(m + n - i) div n = q + (if i \<le> r then 1 else 0)"
  proof (cases "i \<le> r")
    case True
    then have "m + n - i = (q + 1) * n + (r - i)"
      using m assms by (simp add: algebra_simps)
    moreover have "r - i < n" using r by simp
    ultimately have "(m + n - i) div n = q + 1"
      using n0 by (simp del: mult_Suc add_mult_distrib)
    then show ?thesis using True by simp
  next
    case False
    then have "m + n - i = q * n + (r + n - i)"
      using m assms by (simp add: algebra_simps)
    moreover have "r + n - i < n" using r False by simp
    ultimately have "(m + n - i) div n = q" using n0 by simp
    then show ?thesis using False by simp
  qed
  have b: "(m + n - 1 - i) div n = q + (if i < r then 1 else 0)"
  proof (cases "i < r")
    case True
    then have "m + n - 1 - i = (q + 1) * n + (r - 1 - i)"
      using m assms by (simp add: algebra_simps)
    moreover have "r - 1 - i < n" using r by simp
    ultimately have "(m + n - 1 - i) div n = q + 1"
      using n0 by (simp del: mult_Suc add_mult_distrib)
    then show ?thesis using True by simp
  next
    case False
    then have "m + n - 1 - i = q * n + (r + n - 1 - i)"
      using m assms by (simp add: algebra_simps)
    moreover have "r + n - 1 - i < n" using r False assms by simp
    ultimately have "(m + n - 1 - i) div n = q" using n0 by simp
    then show ?thesis using False by simp
  qed
  have "m mod n = r" by (simp add: r_def)
  then show ?thesis using a b by auto
qed

lemma count_mod:
  "i < n \<Longrightarrow> length (filter (\<lambda>k. k mod n = i) [0..<m]) = (m + n - 1 - i) div n"
proof (induction m)
  case 0
  then show ?case by simp
next
  case (Suc m)
  from div_step [OF Suc.prems, of m] Suc.IH [OF Suc.prems]
  show ?case by simp
qed

lemma rand_hits_eq:
  assumes d: "distinct (servers st)" and i: "i < length (servers st)"
  shows "rand_hits env st (servers st ! i) = (255 + length (servers st) - i) div length (servers st)"
proof -
  let ?n = "length (servers st)"
  have ne: "servers st \<noteq> []" using i by auto
  have sel: "(fst (ares__random_server (env\<lparr>rand_bytes := \<lambda>_. of_nat k\<rparr>) st) = Some (servers st ! i))
             = (k mod ?n = i)" if "k < 256" for k
  proof -
    have "unat (of_nat k :: 8 word) = k" using that by (simp add: unat_of_nat)
    then have "fst (ares__random_server (env\<lparr>rand_bytes := \<lambda>_. of_nat k\<rparr>) st)
               = Some (servers st ! (k mod ?n))"
      using random_server_nth [OF ne, of "env\<lparr>rand_bytes := \<lambda>_. of_nat k\<rparr>"] by simp
    moreover have "k mod ?n < ?n" using ne by simp
    ultimately show ?thesis using d i by (simp add: nth_eq_iff_index_eq)
  qed
  have "filter (\<lambda>k. fst (ares__random_server (env\<lparr>rand_bytes := \<lambda>_. of_nat k\<rparr>) st)
                       = Some (servers st ! i)) [0..<256]
      = filter (\<lambda>k. k mod ?n = i) [0..<256]"
    by (rule filter_cong) (simp_all add: sel)
  then show ?thesis
    using count_mod [OF i, of 256] by (simp add: rand_hits_def)
qed

text \<open>
  Claim C8, as stated, fails: with three servers the 256 values of the random byte
  cannot be shared out evenly. The first server is selected by 86 of them, the second
  by 85, so neither is selected with probability one third.
\<close>

theorem random_server_not_uniform:
  "rand_hits plain_env
      (empty_channel\<lparr>rotate := True, servers :=
         [example_server 0 0 \<lparr>sec = 0, usec = 0\<rparr>, example_server 1 0 \<lparr>sec = 0, usec = 0\<rparr>,
          example_server 2 0 \<lparr>sec = 0, usec = 0\<rparr>]\<rparr>)
      (example_server 0 0 \<lparr>sec = 0, usec = 0\<rparr>) = 86
   \<and> rand_hits plain_env
      (empty_channel\<lparr>rotate := True, servers :=
         [example_server 0 0 \<lparr>sec = 0, usec = 0\<rparr>, example_server 1 0 \<lparr>sec = 0, usec = 0\<rparr>,
          example_server 2 0 \<lparr>sec = 0, usec = 0\<rparr>]\<rparr>)
      (example_server 1 0 \<lparr>sec = 0, usec = 0\<rparr>) = 85"
proof -
  let ?st = "empty_channel\<lparr>rotate := True, servers :=
         [example_server 0 0 \<lparr>sec = 0, usec = 0\<rparr>, example_server 1 0 \<lparr>sec = 0, usec = 0\<rparr>,
          example_server 2 0 \<lparr>sec = 0, usec = 0\<rparr>]\<rparr>"
  have d: "distinct (servers ?st)" by (simp add: example_server_def)
  have l: "length (servers ?st) = 3" by simp
  have "rand_hits plain_env ?st (servers ?st ! 0)
          = (255 + length (servers ?st) - 0) div length (servers ?st)"
    by (rule rand_hits_eq [OF d]) simp
  moreover have "rand_hits plain_env ?st (servers ?st ! 1)
          = (255 + length (servers ?st) - 1) div length (servers ?st)"
    by (rule rand_hits_eq [OF d]) simp
  ultimately show ?thesis by simp
qed

text \<open>
  Claim C8, amended. In rotate mode, for a list of \<open>n \<ge> 1\<close> servers, the server at
  position \<open>c mod n\<close> is selected, where \<open>c\<close> is the random byte. Every position
  \<open>i < n\<close> is selected by \<open>256 div n\<close> or by \<open>256 div n + 1\<close> of the 256 byte values,
  and by exactly \<open>256 div n\<close> of them when \<open>n\<close> divides 256.
\<close>

theorem random_server_distribution:
  assumes "distinct (servers st)" and "i < length (servers st)"
  shows "fst (ares__random_server env st)
           = Some (servers st ! (unat (rand_bytes env (rand_state st)) mod length (servers st)))
       \<and> 256 div length (servers st) \<le> rand_hits env st (servers st ! i)
       \<and> rand_hits env st (servers st ! i) \<le> 256 div length (servers st) + 1
       \<and> (length (servers st) dvd 256
            \<longrightarrow> rand_hits env st (servers st ! i) = 256 div length (servers st))"
proof -
  define n where "n = length (servers st)"
  define h where "h = rand_hits env st (servers st ! i)"
  have ne: "servers st \<noteq> []" using assms(2) by auto
  have i: "i < n" and n0: "0 < n" using assms ne by (simp_all add: n_def)
  have h: "h = (255 + n - i) div n"
    unfolding h_def n_def by (rule rand_hits_eq [OF assms])
  have lo: "256 div n \<le> h"
    unfolding h using i by (intro div_le_mono) simp
  have "(255 + n - i) div n \<le> (255 + n) div n" by (intro div_le_mono) simp
  also have "\<dots> = 255 div n + 1" using n0 by simp
  also have "\<dots> \<le> 256 div n + 1" by (simp add: div_le_mono)
  finally have hi: "h \<le> 256 div n + 1" unfolding h .
  have ex: "h = 256 div n" if "n dvd 256"
  proof -
    from that obtain k where k: "256 = n * k" by (auto simp: dvd_def)
    have "255 + n - i = k * n + (n - 1 - i)" using k i by (simp add: algebra_simps)
    moreover have "n - 1 - i < n" using n0 by simp
    ultimately have "(255 + n - i) div n = k" using n0 by simp
    moreover have "256 div n = (n * k) div n" using k by simp
    then have "256 div n = k" using n0 by simp
    ultimately show ?thesis unfolding h by simp
  qed
  show ?thesis
    using random_server_nth [OF ne, of env] lo hi ex unfolding n_def h_def by blast
qed

theorem random_server_distribution_witness:
  "distinct (servers (empty_channel\<lparr>servers :=
       [example_server 0 0 \<lparr>sec = 0, usec = 0\<rparr>, example_server 1 0 \<lparr>sec = 0, usec = 0\<rparr>]\<rparr>))
   \<and> fst (ares__random_server (plain_env\<lparr>rand_bytes := \<lambda>_. 201\<rparr>) (empty_channel\<lparr>servers :=
       [example_server 0 0 \<lparr>sec = 0, usec = 0\<rparr>, example_server 1 0 \<lparr>sec = 0, usec = 0\<rparr>]\<rparr>))
       = Some (example_server 1 0 \<lparr>sec = 0, usec = 0\<rparr>)
   \<and> rand_hits (plain_env\<lparr>rand_bytes := \<lambda>_. 201\<rparr>) (empty_channel\<lparr>servers :=
       [example_server 0 0 \<lparr>sec = 0, usec = 0\<rparr>, example_server 1 0 \<lparr>sec = 0, usec = 0\<rparr>]\<rparr>)
       (example_server 1 0 \<lparr>sec = 0, usec = 0\<rparr>) = 128"
proof -
  let ?st = "empty_channel\<lparr>servers :=
       [example_server 0 0 \<lparr>sec = 0, usec = 0\<rparr>, example_server 1 0 \<lparr>sec = 0, usec = 0\<rparr>]\<rparr>"
  have d: "distinct (servers ?st)" by (simp add: example_server_def)
  have l: "length (servers ?st) = 2" by simp
  have i: "1 < length (servers ?st)" by simp
  have u: "unat (201 :: 8 word) mod 2 = 1" by simp
  show ?thesis
    using random_server_distribution [OF d i, of "plain_env\<lparr>rand_bytes := \<lambda>_. 201\<rparr>"] d
    unfolding l by (simp add: u)
qed

subsection \<open>Question equality\<close>

lemma all_from_step:
  "i < (n::nat) \<Longrightarrow>
     (\<forall>j. i \<le> j \<and> j < n \<longrightarrow> P j) = (P i \<and> (\<forall>j. Suc i \<le> j \<and> j < n \<longrightarrow> P j))"
proof -
  assume i: "i < n"
  have "\<And>j. (i \<le> j) = (j = i \<or> Suc i \<le> j)" by arith
  then show ?thesis using i by auto
qed

lemma same_questions_from_iff:
  "same_questions_from fl tcp qrec arec i =
     (\<forall>j. i \<le> j \<and> j < length (qd qrec) \<longrightarrow>
        j < length (qd arec) \<and>
        qtype (qd qrec ! j) = qtype (qd arec ! j) \<and>
        qclass (qd qrec ! j) = qclass (qd arec ! j) \<and>
        names_match (fl AND ARES_FLAG_DNS0x20 \<noteq> 0 \<and> \<not> tcp)
          (qd_name (qd qrec ! j)) (qd_name (qd arec ! j)))"
proof (induction fl tcp qrec arec i rule: same_questions_from.induct)
  case (1 fl tcp qrec arec i)
  show ?case
  proof (cases "i < length (qd qrec)")
    case False
    then show ?thesis
      by (subst same_questions_from.simps) (auto simp add: ares_dns_record_query_cnt_def)
  next
    case True
    note IH = "1.IH"
    show ?thesis
      apply (subst same_questions_from.simps)
      apply (subst all_from_step [OF True])
      using True IH
      apply (simp add: ares_dns_record_query_cnt_def ares_dns_record_query_get_def
           ares_streq_def ares_strcaseeq_def names_match_def split: option.split)
      apply blast
      done
  qed
qed

text \<open>
  Claim C6. \<^verbatim>\<open>same_questions\<close> returns true iff the question counts are equal and,
  at every question index, the types and the classes are equal and the names match,
  where names are compared case-sensitively exactly when \<^verbatim>\<open>ARES_FLAG_DNS0x20\<close> is set
  on the channel and the query is not using TCP, and without regard to ASCII case in
  every other case.
\<close>

theorem same_questions_iff:
  "same_questions chflags tcp qrec arec \<longleftrightarrow>
     ares_dns_record_query_cnt qrec = ares_dns_record_query_cnt arec \<and>
     (\<forall>i < ares_dns_record_query_cnt qrec.
        qtype (qd qrec ! i) = qtype (qd arec ! i) \<and>
        qclass (qd qrec ! i) = qclass (qd arec ! i) \<and>
        names_match (chflags AND ARES_FLAG_DNS0x20 \<noteq> 0 \<and> \<not> tcp)
          (qd_name (qd qrec ! i)) (qd_name (qd arec ! i)))"
  unfolding same_questions_def same_questions_from_iff ares_dns_record_query_cnt_def
  by auto

theorem same_questions_iff_witness:
  "\<not> same_questions ARES_FLAG_DNS0x20 False
       \<lparr>dns_id = 1, dns_flag_tc = False, dns_rcode = ARES_RCODE_NOERROR,
        qd = [\<lparr>qd_name = Some ''aB'', qtype = 1, qclass = 1\<rparr>], additional = []\<rparr>
       \<lparr>dns_id = 1, dns_flag_tc = False, dns_rcode = ARES_RCODE_NOERROR,
        qd = [\<lparr>qd_name = Some ''ab'', qtype = 1, qclass = 1\<rparr>], additional = []\<rparr>
   \<and> same_questions ARES_FLAG_DNS0x20 True
       \<lparr>dns_id = 1, dns_flag_tc = False, dns_rcode = ARES_RCODE_NOERROR,
        qd = [\<lparr>qd_name = Some ''aB'', qtype = 1, qclass = 1\<rparr>], additional = []\<rparr>
       \<lparr>dns_id = 1, dns_flag_tc = False, dns_rcode = ARES_RCODE_NOERROR,
        qd = [\<lparr>qd_name = Some ''ab'', qtype = 1, qclass = 1\<rparr>], additional = []\<rparr>"
proof -
  have l: "ares_tolower CHR ''a'' = CHR ''a''" "ares_tolower CHR ''B'' = CHR ''b''"
    "ares_tolower CHR ''b'' = CHR ''b''"
    by code_simp+
  show ?thesis
    unfolding same_questions_iff
    by (simp add: ares_dns_record_query_cnt_def names_match_def l ARES_FLAG_DNS0x20_def)
qed

subsection \<open>Timeout of an attempt\<close>

lemma bitlen_67108876: "bitlen 67108876 = 27"
  by (simp add: bitlen.simps)

lemma jitter_amount_example: "jitter_amount 67108876 65535 = 33554440"
  by (simp add: jitter_amount_def f32_half_def f32_div_ushrt_max_def f32_of_nat_def
      f32_mul_def f32_round_def round_shift_def f32_to_size_def bitlen.simps Let_def)

text \<open>
  Claim C4 fails on the code for large timeouts. One server, a server timeout of
  16777219 ms, \<open>maxtimeout\<close> 67108876 ms, the third attempt (\<open>try_count = 2\<close>, so two
  rounds) and the random value 65535: the capped value is \<open>16777219 * 4 = 67108876\<close>,
  its conversion to \<^verbatim>\<open>float\<close> rounds up to 67108880, the jitter takes off
  33554440, and the returned timeout is 33554436, less than half of the capped value
  (33554438).
\<close>

theorem calc_query_timeout_below_half:
  "fst (ares__calc_query_timeout
          (plain_env\<lparr>rand_bytes := \<lambda>_. 255, ares_metrics_server_timeout := \<lambda>s now. 16777219\<rparr>)
          (empty_channel\<lparr>maxtimeout := 67108876,
                          servers := [example_server 0 0 \<lparr>sec = 0, usec = 0\<rparr>]\<rparr>)
          ((example_query 7 None)\<lparr>try_count := 2\<rparr>) 0 \<lparr>sec = 100, usec = 0\<rparr>)
     = 33554436
   \<and> (33554436 :: nat) < 67108876 div 2"
proof -
  have r: "(ucast (255 :: 8 word) + push_bit 8 (ucast (255 :: 8 word)) :: 16 word) = 65535"
    by simp
  show ?thesis
    by (simp add: ares__calc_query_timeout_def plain_env_def empty_channel_def
        example_query_def example_record_def rand_u16_def Let_def r jitter_amount_example)
qed

text \<open>
  The parts of claim C4 that do not depend on the jitter: the returned timeout is never
  below the server timeout, and it is the server timeout itself before the first full
  round.
\<close>

lemma calc_query_timeout_ge_base:
  "servers st \<noteq> [] \<Longrightarrow>
     unat (ares_metrics_server_timeout env server now)
       \<le> fst (ares__calc_query_timeout env st query server now)"
  by (simp add: ares__calc_query_timeout_def Let_def split: prod.split)

lemma calc_query_timeout_first_round:
  "servers st \<noteq> [] \<Longrightarrow> try_count query < length (servers st) \<Longrightarrow>
     ares__calc_query_timeout env st query server now
       = (unat (ares_metrics_server_timeout env server now), st)"
  by (simp add: ares__calc_query_timeout_def Let_def)

subsection \<open>Writing a query to a connection\<close>

text \<open>
  Claim C9, as stated, fails when the pending-write notification is already set: on a
  connected TCP connection with the callback configured and \<open>notify_pending_write\<close>
  already true, the query is written and the buffer is flushed at once; the callback is
  not invoked.
\<close>

theorem conn_query_write_flushes_when_notified:
  "map_option (\<lambda>r. (fst r, events (snd r)))
     (ares__conn_query_write plain_env
        (example_channel
           \<lparr>conns := [0 \<mapsto> example_conn 0 True [0]],
            notify_pending_write_cb := True, notify_pending_write := True\<rparr>)
        0 0 \<lparr>sec = 100, usec = 0\<rparr>)
   = Some (ARES_SUCCESS, [EvFlush 0])"
  by (simp add: ares__conn_query_write_def conn_flush_def example_channel_def
      empty_channel_def plain_env_def example_conn_def example_query_def update_query_def
      add_event_def Let_def)

text \<open>
  Claim C9, amended. After the query has been serialized into the outbound buffer of
  a TCP connection (the write not being deferred by the not-yet-connected rule), when
  \<open>notify_pending_write_cb\<close> is configured and \<open>notify_pending_write\<close> is not yet
  set, the dispatcher sets \<open>notify_pending_write\<close>, invokes the callback once and
  returns success; the buffer holds the serialized query and is not flushed.
\<close>

theorem conn_query_write_notifies:
  assumes "conns st c = Some cn" and "queries st q = Some query"
    and "ares_cookie_apply env (q_query query) c now = (ARES_SUCCESS, rec1)"
    and "ares_dns_write_buf_tcp env rec1 = (ARES_SUCCESS, bytes)"
    and "conn_flag_tcp cn"
    and "conn_state_connected cn \<or> conn_flag_tfo_initial cn"
    and "notify_pending_write_cb st" and "\<not> notify_pending_write st"
  shows "\<exists>st'. ares__conn_query_write env st c q now = Some (ARES_SUCCESS, st')
           \<and> notify_pending_write st'
           \<and> events st' = events st @ [EvNotifyPendingWrite]
           \<and> conns st' c = Some (cn\<lparr>out_buf := out_buf cn @ bytes\<rparr>)"
  using assms
  by (auto simp: ares__conn_query_write_def update_query_def add_event_def Let_def)

theorem conn_query_write_notifies_witness:
  "\<exists>st'. ares__conn_query_write plain_env
        (example_channel
           \<lparr>conns := [0 \<mapsto> example_conn 0 True [0]], notify_pending_write_cb := True\<rparr>)
        0 0 \<lparr>sec = 100, usec = 0\<rparr> = Some (ARES_SUCCESS, st')
      \<and> notify_pending_write st'
      \<and> events st' = [EvNotifyPendingWrite]
      \<and> conns st' 0 = Some ((example_conn 0 True [0])\<lparr>out_buf := [0, 1, 7]\<rparr>)"
  using conn_query_write_notifies [of
      "example_channel\<lparr>conns := [0 \<mapsto> example_conn 0 True [0]], notify_pending_write_cb := True\<rparr>"
      0 "example_conn 0 True [0]" 0 "example_query 7 (Some 0)" plain_env
      "\<lparr>sec = 100, usec = 0\<rparr>" "example_record 7 False ARES_RCODE_NOERROR" "[0, 1, 7]"]
  by (simp add: example_channel_def empty_channel_def plain_env_def example_conn_def
      example_query_def)

subsection \<open>Response handler: dropped and malformed messages\<close>

lemma rewrite_without_edns_status:
  "rewrite_without_edns r = (s, r') \<Longrightarrow> s = ARES_SUCCESS \<or> s = ARES_EFORMERR"
  by (auto simp: rewrite_without_edns_def split: option.splits)

lemma process_answer_parsed_status:
  assumes "ares_dns_parse env abuf = Some r"
    and "process_answer n env st abuf c now = Some (s, st')"
  shows "s = ARES_SUCCESS \<or> s = ARES_EFORMERR"
  using assms
  by (auto simp: process_answer_def Let_def
      split: if_splits option.splits prod.splits dest: rewrite_without_edns_status)

text \<open>
  Claim C7. \<^verbatim>\<open>process_answer\<close> returns \<^verbatim>\<open>ARES_SUCCESS\<close> and leaves the channel as
  it was (no query is ended or requeued) for a message of length zero, for a parsed
  response whose id matches no query of \<^verbatim>\<open>queries_by_qid\<close>, and for a response whose
  questions are not those of the matched query; it returns \<^verbatim>\<open>ARES_EBADRESP\<close> exactly
  when the message is not empty and parsing fails.
\<close>

theorem process_answer_drops:
  "(abuf = [] \<longrightarrow> process_answer n env st abuf c now = Some (ARES_SUCCESS, st))
   \<and> (abuf \<noteq> [] \<and> ares_dns_parse env abuf = Some r \<and> queries_by_qid st (dns_id r) = None
        \<longrightarrow> process_answer n env st abuf c now = Some (ARES_SUCCESS, st))
   \<and> (abuf \<noteq> [] \<and> ares_dns_parse env abuf = Some r \<and> queries_by_qid st (dns_id r) = Some q
        \<and> queries st q = Some query
        \<and> \<not> same_questions (ch_flags st) (using_tcp query) (q_query query) r
        \<longrightarrow> process_answer n env st abuf c now = Some (ARES_SUCCESS, st))
   \<and> ((\<exists>st'. process_answer n env st abuf c now = Some (ARES_EBADRESP, st'))
        \<longleftrightarrow> abuf \<noteq> [] \<and> ares_dns_parse env abuf = None)"
proof -
  have a: "process_answer n env st abuf c now = Some (ARES_SUCCESS, st)" if "abuf = []"
    using that by (simp add: process_answer_def)
  have b: "process_answer n env st abuf c now = Some (ARES_SUCCESS, st)"
    if "abuf \<noteq> []" "ares_dns_parse env abuf = Some r" "queries_by_qid st (dns_id r) = None"
    using that by (simp add: process_answer_def)
  have c: "process_answer n env st abuf c now = Some (ARES_SUCCESS, st)"
    if "abuf \<noteq> []" "ares_dns_parse env abuf = Some r" "queries_by_qid st (dns_id r) = Some q"
      "queries st q = Some query"
      "\<not> same_questions (ch_flags st) (using_tcp query) (q_query query) r"
    using that by (simp add: process_answer_def)
  have d: "process_answer n env st abuf c now = Some (ARES_EBADRESP, st)"
    if "abuf \<noteq> []" "ares_dns_parse env abuf = None"
    using that by (simp add: process_answer_def)
  have e: "abuf \<noteq> [] \<and> ares_dns_parse env abuf = None"
    if r: "process_answer n env st abuf c now = Some (ARES_EBADRESP, st')" for st'
  proof -
    have "abuf \<noteq> []" using r a by auto
    moreover have "ares_dns_parse env abuf = None"
    proof (cases "ares_dns_parse env abuf")
      case None
      then show ?thesis .
    next
      case (Some r')
      from process_answer_parsed_status [OF Some r] show ?thesis by simp
    qed
    ultimately show ?thesis ..
  qed
  show ?thesis using a b c d e by blast
qed

theorem process_answer_drops_witness:
  "process_answer 0 plain_env example_channel [] 0 \<lparr>sec = 100, usec = 0\<rparr>
     = Some (ARES_SUCCESS, example_channel)
   \<and> process_answer 0
        (plain_env\<lparr>ares_dns_parse := \<lambda>_. Some (example_record 9 False ARES_RCODE_NOERROR)\<rparr>)
        example_channel [1] 0 \<lparr>sec = 100, usec = 0\<rparr>
     = Some (ARES_SUCCESS, example_channel)
   \<and> (\<exists>st'. process_answer 0 plain_env example_channel [1] 0 \<lparr>sec = 100, usec = 0\<rparr>
               = Some (ARES_EBADRESP, st'))"
proof -
  let ?now = "\<lparr>sec = 100, usec = 0\<rparr>"
  let ?env = "plain_env\<lparr>ares_dns_parse := \<lambda>_. Some (example_record 9 False ARES_RCODE_NOERROR)\<rparr>"
  have 1: "process_answer 0 plain_env example_channel [] 0 ?now
             = Some (ARES_SUCCESS, example_channel)"
    using process_answer_drops [of "[]" 0 plain_env example_channel 0 ?now] by simp
  have 2: "process_answer 0 ?env example_channel [1] 0 ?now = Some (ARES_SUCCESS, example_channel)"
    using process_answer_drops [of "[1]" 0 ?env example_channel 0 ?now
        "example_record 9 False ARES_RCODE_NOERROR"]
    by (simp add: example_channel_def empty_channel_def example_record_def)
  have 3: "\<exists>st'. process_answer 0 plain_env example_channel [1] 0 ?now = Some (ARES_EBADRESP, st')"
    using process_answer_drops [of "[1]" 0 plain_env example_channel 0 ?now]
    by (simp add: plain_env_def)
  show ?thesis using 1 2 3 by blast
qed

text \<open>
  Claim C10. When parsing a non-empty message fails, \<^verbatim>\<open>process_answer\<close> returns
  \<^verbatim>\<open>ARES_EBADRESP\<close> and the channel is exactly as before the call: no query is ended,
  requeued, detached or changed, no failure counter or retry time of a server
  changes, and the indices of the query table are untouched.
\<close>

theorem process_answer_badresp_unchanged:
  assumes "abuf \<noteq> []" and "ares_dns_parse env abuf = None"
  shows "process_answer n env st abuf c now = Some (ARES_EBADRESP, st)"
  using assms by (simp add: process_answer_def)

theorem process_answer_badresp_unchanged_witness:
  "[1 :: 8 word] \<noteq> [] \<and> ares_dns_parse plain_env [1] = None
   \<and> process_answer 3 plain_env example_channel [1] 0 \<lparr>sec = 100, usec = 0\<rparr>
       = Some (ARES_EBADRESP, example_channel)"
  using process_answer_badresp_unchanged [of "[1]" plain_env 3 example_channel 0
      "\<lparr>sec = 100, usec = 0\<rparr>"]
  by (simp add: plain_env_def)

subsection \<open>Frame properties of the query table operations\<close>

lemma update_query_live:
  "queries st q = Some x \<Longrightarrow> update_query q f st = st\<lparr>queries := (queries st)(q \<mapsto> f x)\<rparr>"
  by (simp add: update_query_def)

lemma queries_idem: "queries st q = v \<Longrightarrow> st\<lparr>queries := (queries st)(q := v)\<rparr> = st"
  by (simp add: fun_upd_idem)

lemma update_query_dead: "queries st q = None \<Longrightarrow> update_query q f st = st"
  by (simp add: update_query_def queries_idem)

lemma update_query_id: "queries st q = Some x \<Longrightarrow> f x = x \<Longrightarrow> update_query q f st = st"
  by (simp add: update_query_def queries_idem)

lemma queries_update_query:
  "queries (update_query q f st) = (queries st)(q := map_option f (queries st q))"
  by (simp add: update_query_def)

lemma queries_destroy_timeout [simp]:
  "queries (destroy_node_queries_by_timeout st q) = queries st"
  by (simp add: destroy_node_queries_by_timeout_def split: option.split)

lemma queries_destroy_to_conn [simp]:
  "queries (destroy_node_queries_to_conn st q) = queries st"
  by (simp add: destroy_node_queries_to_conn_def split: option.split)

lemma queries_remove_from_conn:
  "queries (ares__query_remove_from_conn st q)
     = (queries st)(q := map_option
          (\<lambda>x. x\<lparr>node_queries_by_timeout := False, node_queries_to_conn := None, q_conn := None\<rparr>)
          (queries st q))"
  by (simp add: ares__query_remove_from_conn_def Let_def queries_update_query)

lemma servers_destroy_timeout [simp]:
  "servers (destroy_node_queries_by_timeout st q) = servers st"
  "tries (destroy_node_queries_by_timeout st q) = tries st"
  "conns (destroy_node_queries_by_timeout st q) = conns st"
  "events (destroy_node_queries_by_timeout st q) = events st"
  by (simp_all add: destroy_node_queries_by_timeout_def split: option.split)

lemma servers_destroy_to_conn [simp]:
  "servers (destroy_node_queries_to_conn st q) = servers st"
  "tries (destroy_node_queries_to_conn st q) = tries st"
  "queries_by_timeout (destroy_node_queries_to_conn st q) = queries_by_timeout st"
  "events (destroy_node_queries_to_conn st q) = events st"
  by (simp_all add: destroy_node_queries_to_conn_def split: option.split)

lemma fields_update_query [simp]:
  "servers (update_query q f st) = servers st"
  "tries (update_query q f st) = tries st"
  "conns (update_query q f st) = conns st"
  "queries_by_timeout (update_query q f st) = queries_by_timeout st"
  "events (update_query q f st) = events st"
  "all_queries (update_query q f st) = all_queries st"
  "queries_by_qid (update_query q f st) = queries_by_qid st"
  by (simp_all add: update_query_def)

lemma fields_remove_from_conn [simp]:
  "servers (ares__query_remove_from_conn st q) = servers st"
  "tries (ares__query_remove_from_conn st q) = tries st"
  "events (ares__query_remove_from_conn st q) = events st"
  by (simp_all add: ares__query_remove_from_conn_def Let_def)

lemma queries_by_timeout_remove_from_conn:
  "queries st q = Some x \<Longrightarrow>
     queries_by_timeout (ares__query_remove_from_conn st q)
       = (if node_queries_by_timeout x then removeAll q (queries_by_timeout st)
          else queries_by_timeout st)"
  by (simp add: ares__query_remove_from_conn_def Let_def destroy_node_queries_by_timeout_def)

lemma conns_remove_from_conn:
  "queries st q = Some x \<Longrightarrow>
     conns (ares__query_remove_from_conn st q)
       = (case node_queries_to_conn x of
            None \<Rightarrow> conns st
          | Some c \<Rightarrow>
              (case conns st c of
                 None \<Rightarrow> conns st
               | Some cn \<Rightarrow> (conns st)(c \<mapsto> cn\<lparr>queries_to_conn := removeAll q (queries_to_conn cn)\<rparr>)))"
  by (simp add: ares__query_remove_from_conn_def Let_def destroy_node_queries_to_conn_def
      destroy_node_queries_by_timeout_def split: option.split)

lemma queries_free_query_self: "queries (ares__free_query st q) q = None"
  by (simp add: ares__free_query_def Let_def)

lemma events_free_query: "events (ares__free_query st q) = events st"
  by (simp add: ares__free_query_def ares_detach_query_def Let_def update_query_def
      split: option.split)

lemma events_notify_empty:
  "e \<in> set (events st) \<Longrightarrow> e \<in> set (events (ares_queue_notify_empty st))"
  by (simp add: ares_queue_notify_empty_def add_event_def)

lemma queries_notify_empty [simp]: "queries (ares_queue_notify_empty st) = queries st"
  by (simp add: ares_queue_notify_empty_def add_event_def)

lemma end_query_frees:
  assumes "queries st q = Some x"
  shows "queries (end_query env st q status dnsrec) q = None
     \<and> EvCallback q status (timeouts x) dnsrec \<in> set (events (end_query env st q status dnsrec))"
proof -
  let ?st1 = "add_event (EvCallback q status (timeouts x) dnsrec)
                (query_callback env st q status (timeouts x) dnsrec)"
  have e: "end_query env st q status dnsrec = ares_queue_notify_empty (ares__free_query ?st1 q)"
    using assms by (simp add: end_query_def Let_def)
  have "EvCallback q status (timeouts x) dnsrec \<in> set (events (ares__free_query ?st1 q))"
    by (simp add: events_free_query add_event_def)
  then show ?thesis
    unfolding e by (simp add: queries_free_query_self events_notify_empty)
qed

subsection \<open>Requeue\<close>

lemma requeue_query_unfold:
  assumes live: "queries st q = Some query"
  shows "ares__requeue_query (Suc n) env st q now status inc_try_count dnsrec
     = (let es = (if status \<noteq> ARES_SUCCESS then status else error_status query);
            tc = (if inc_try_count then try_count query + 1 else try_count query);
            st3 = update_query q (\<lambda>x. x\<lparr>error_status := es, try_count := tc\<rparr>)
                    (ares__query_remove_from_conn st q);
            es' = (if es = ARES_SUCCESS then ARES_ETIMEOUT else es)
        in if tc < length (servers st) * tries st \<and> \<not> no_retries query
           then ares__send_query n env st3 q now
           else Some (ARES_ETIMEOUT,
                      end_query env (update_query q (\<lambda>x. x\<lparr>error_status := es'\<rparr>) st3)
                        q es' dnsrec))"
proof -
  define es where "es = (if status \<noteq> ARES_SUCCESS then status else error_status query)"
  define tc where "tc = (if inc_try_count then try_count query + 1 else try_count query)"
  define st1 where "st1 = ares__query_remove_from_conn st q"
  define st3 where "st3 = update_query q (\<lambda>x. x\<lparr>error_status := es, try_count := tc\<rparr>) st1"
  define es' where "es' = (if es = ARES_SUCCESS then ARES_ETIMEOUT else es)"
  define q1 where "q1 = query\<lparr>node_queries_by_timeout := False,
                               node_queries_to_conn := None, q_conn := None\<rparr>"
  define q3 where "q3 = q1\<lparr>error_status := es, try_count := tc\<rparr>"
  have l1: "queries st1 q = Some q1"
    by (simp add: st1_def queries_remove_from_conn live q1_def)
  have l3: "queries st3 q = Some q3"
    by (simp add: st3_def queries_update_query l1 q3_def)
  have steps: "(let st2 = (if status \<noteq> ARES_SUCCESS
                           then update_query q (\<lambda>x. x\<lparr>error_status := status\<rparr>) st1 else st1)
                in if inc_try_count
                   then update_query q (\<lambda>x. x\<lparr>try_count := try_count x + 1\<rparr>) st2 else st2) = st3"
  proof -
    define st2 where "st2 = (if status \<noteq> ARES_SUCCESS
                           then update_query q (\<lambda>x. x\<lparr>error_status := status\<rparr>) st1 else st1)"
    have s2: "st2 = update_query q (\<lambda>x. x\<lparr>error_status := es\<rparr>) st1"
    proof (cases "status \<noteq> ARES_SUCCESS")
      case True
      then show ?thesis by (simp add: st2_def es_def)
    next
      case False
      then have "q1\<lparr>error_status := es\<rparr> = q1" by (simp add: es_def q1_def)
      with False show ?thesis by (simp add: st2_def update_query_id [OF l1])
    qed
    have l2: "queries st2 q = Some (q1\<lparr>error_status := es\<rparr>)"
      by (simp add: s2 queries_update_query l1)
    have s3: "(if inc_try_count
               then update_query q (\<lambda>x. x\<lparr>try_count := try_count x + 1\<rparr>) st2 else st2)
              = update_query q (\<lambda>x. x\<lparr>try_count := tc\<rparr>) st2"
    proof (cases inc_try_count)
      case True
      then show ?thesis by (simp add: update_query_live [OF l2] tc_def q1_def)
    next
      case False
      then have "q1\<lparr>error_status := es\<rparr>\<lparr>try_count := tc\<rparr> = q1\<lparr>error_status := es\<rparr>"
        by (simp add: tc_def q1_def)
      with False show ?thesis by (simp add: update_query_id [OF l2])
    qed
    have u: "update_query q (\<lambda>x. x\<lparr>try_count := tc\<rparr>) st2 = st3"
      by (simp add: s2 st3_def update_query_def l1)
    show ?thesis
      unfolding Let_def st2_def [symmetric] by (simp only: s3 u)
  qed
  have e: "(if error_status q3 = ARES_SUCCESS
            then update_query q (\<lambda>x. x\<lparr>error_status := ARES_ETIMEOUT\<rparr>) st3 else st3)
           = update_query q (\<lambda>x. x\<lparr>error_status := es'\<rparr>) st3"
  proof (cases "error_status q3 = ARES_SUCCESS")
    case True
    then show ?thesis by (simp add: es'_def q3_def)
  next
    case False
    then have "q3\<lparr>error_status := es'\<rparr> = q3" by (simp add: es'_def q3_def)
    with False show ?thesis by (simp add: update_query_id [OF l3])
  qed
  have l4: "queries (update_query q (\<lambda>x. x\<lparr>error_status := es'\<rparr>) st3) q
            = Some (q3\<lparr>error_status := es'\<rparr>)"
    by (simp add: queries_update_query l3)
  have "ares__requeue_query (Suc n) env st q now status inc_try_count dnsrec
        = (if tc < length (servers st) * tries st \<and> \<not> no_retries query
           then ares__send_query n env st3 q now
           else Some (ARES_ETIMEOUT,
                      end_query env (update_query q (\<lambda>x. x\<lparr>error_status := es'\<rparr>) st3)
                        q es' dnsrec))"
    apply (simp only: ares__requeue_query.simps Let_def)
    apply (fold st1_def)
    apply (simp only: steps [unfolded Let_def] l3 option.case e l4)
    apply (simp add: q3_def q1_def)
    done
  then show ?thesis
    unfolding Let_def st3_def st1_def es_def tc_def es'_def .
qed

text \<open>
  Claim C3. \<^verbatim>\<open>ares__requeue_query\<close> on a live query detaches it from the connection
  and timeout indices (its three link fields are cleared and it is in neither list);
  the status is recorded as \<open>error_status\<close> only when it is not \<^verbatim>\<open>ARES_SUCCESS\<close>;
  \<open>try_count\<close> is incremented when \<open>inc_try_count\<close> is set; then, if \<open>try_count\<close>
  is below \<open>num_servers * tries\<close> and the query is not marked \<open>no_retries\<close>, the
  result is that of the dispatcher on this state, and otherwise the query is ended with
  its \<open>error_status\<close> (\<^verbatim>\<open>ARES_ETIMEOUT\<close> when none was recorded) and the result is
  \<^verbatim>\<open>ARES_ETIMEOUT\<close>. The two hypotheses on the lists say that the query's node
  pointers agree with the lists.
\<close>

theorem requeue_query_steps:
  assumes live: "queries st q = Some query"
    and tmo: "node_queries_by_timeout query = (q \<in> set (queries_by_timeout st))"
    and lnk: "\<forall>c cn. conns st c = Some cn \<and> q \<in> set (queries_to_conn cn)
                 \<longrightarrow> node_queries_to_conn query = Some c"
  shows
    "(let es = (if status \<noteq> ARES_SUCCESS then status else error_status query);
          tc = (if inc_try_count then try_count query + 1 else try_count query);
          st3 = update_query q (\<lambda>x. x\<lparr>error_status := es, try_count := tc\<rparr>)
                  (ares__query_remove_from_conn st q);
          es' = (if es = ARES_SUCCESS then ARES_ETIMEOUT else es)
      in queries st3 q = Some (query\<lparr>node_queries_by_timeout := False,
                                     node_queries_to_conn := None, q_conn := None,
                                     error_status := es, try_count := tc\<rparr>)
         \<and> q \<notin> set (queries_by_timeout st3)
         \<and> (\<forall>c cn. conns st3 c = Some cn \<longrightarrow> q \<notin> set (queries_to_conn cn))
         \<and> ares__requeue_query (Suc n) env st q now status inc_try_count dnsrec
             = (if tc < length (servers st) * tries st \<and> \<not> no_retries query
                then ares__send_query n env st3 q now
                else Some (ARES_ETIMEOUT,
                           end_query env (update_query q (\<lambda>x. x\<lparr>error_status := es'\<rparr>) st3)
                             q es' dnsrec))
         \<and> (\<not> (tc < length (servers st) * tries st \<and> \<not> no_retries query) \<longrightarrow>
              (\<exists>st'. ares__requeue_query (Suc n) env st q now status inc_try_count dnsrec
                        = Some (ARES_ETIMEOUT, st')
                    \<and> queries st' q = None
                    \<and> EvCallback q es' (timeouts query) dnsrec \<in> set (events st'))))"
proof -
  define es where "es = (if status \<noteq> ARES_SUCCESS then status else error_status query)"
  define tc where "tc = (if inc_try_count then try_count query + 1 else try_count query)"
  define st1 where "st1 = ares__query_remove_from_conn st q"
  define st3 where "st3 = update_query q (\<lambda>x. x\<lparr>error_status := es, try_count := tc\<rparr>) st1"
  define es' where "es' = (if es = ARES_SUCCESS then ARES_ETIMEOUT else es)"
  define q3 where "q3 = query\<lparr>node_queries_by_timeout := False,
                               node_queries_to_conn := None, q_conn := None,
                               error_status := es, try_count := tc\<rparr>"
  have l3: "queries st3 q = Some q3"
    by (simp add: st3_def st1_def queries_update_query queries_remove_from_conn live q3_def)
  have tmo3: "q \<notin> set (queries_by_timeout st3)"
    using tmo by (simp add: st3_def st1_def queries_by_timeout_remove_from_conn [OF live])
  have lnk3: "q \<notin> set (queries_to_conn cn)" if "conns st3 c = Some cn" for c cn
    using that lnk
    by (auto simp: st3_def st1_def conns_remove_from_conn [OF live]
        split: option.splits if_splits)
  have run: "ares__requeue_query (Suc n) env st q now status inc_try_count dnsrec
             = (if tc < length (servers st) * tries st \<and> \<not> no_retries query
                then ares__send_query n env st3 q now
                else Some (ARES_ETIMEOUT,
                           end_query env (update_query q (\<lambda>x. x\<lparr>error_status := es'\<rparr>) st3)
                             q es' dnsrec))"
    unfolding requeue_query_unfold [OF live] Let_def st3_def st1_def es_def tc_def es'_def ..
  have fin: "\<exists>st'. ares__requeue_query (Suc n) env st q now status inc_try_count dnsrec
                        = Some (ARES_ETIMEOUT, st')
                    \<and> queries st' q = None
                    \<and> EvCallback q es' (timeouts query) dnsrec \<in> set (events st')"
    if "\<not> (tc < length (servers st) * tries st \<and> \<not> no_retries query)"
  proof -
    have l4: "queries (update_query q (\<lambda>x. x\<lparr>error_status := es'\<rparr>) st3) q
              = Some (q3\<lparr>error_status := es'\<rparr>)"
      by (simp add: queries_update_query l3)
    from end_query_frees [OF l4, of env es' dnsrec] run that show ?thesis
      by (simp add: q3_def)
  qed
  show ?thesis
    unfolding Let_def
    using l3 tmo3 lnk3 run fin
    unfolding q3_def st3_def st1_def es_def tc_def es'_def
    by (intro conjI impI allI) simp_all
qed

theorem requeue_query_steps_witness:
  "queries (example_channel\<lparr>queries := [0 \<mapsto> (example_query 7 (Some 0))\<lparr>no_retries := True\<rparr>]\<rparr>) 0
     = Some ((example_query 7 (Some 0))\<lparr>no_retries := True\<rparr>)
   \<and> (\<exists>st'. ares__requeue_query 1 plain_env
               (example_channel\<lparr>queries := [0 \<mapsto> (example_query 7 (Some 0))\<lparr>no_retries := True\<rparr>]\<rparr>)
               0 \<lparr>sec = 100, usec = 0\<rparr> ARES_ESERVFAIL True None = Some (ARES_ETIMEOUT, st')
            \<and> queries st' 0 = None
            \<and> EvCallback 0 ARES_ESERVFAIL 0 None \<in> set (events st'))"
proof -
  let ?query = "(example_query 7 (Some 0))\<lparr>no_retries := True\<rparr>"
  let ?st = "example_channel\<lparr>queries := [0 \<mapsto> ?query]\<rparr>"
  have live: "queries ?st 0 = Some ?query" by simp
  have tmo: "node_queries_by_timeout ?query = (0 \<in> set (queries_by_timeout ?st))"
    by (simp add: example_channel_def example_query_def)
  have lnk: "\<forall>c cn. conns ?st c = Some cn \<and> 0 \<in> set (queries_to_conn cn)
               \<longrightarrow> node_queries_to_conn ?query = Some c"
    by (simp add: example_channel_def example_query_def)
  note t = requeue_query_steps [OF live tmo lnk, of ARES_ESERVFAIL True 0 plain_env
      "\<lparr>sec = 100, usec = 0\<rparr>" None, unfolded Let_def]
  note fin = t [THEN conjunct2, THEN conjunct2, THEN conjunct2, THEN conjunct2]
  from fin have "\<exists>st'. ares__requeue_query 1 plain_env ?st 0 \<lparr>sec = 100, usec = 0\<rparr>
                       ARES_ESERVFAIL True None = Some (ARES_ETIMEOUT, st')
                   \<and> queries st' 0 = None
                   \<and> EvCallback 0 ARES_ESERVFAIL 0 None \<in> set (events st')"
    by (simp add: example_query_def)
  with live show ?thesis by simp
qed

subsection \<open>Frame properties of the server and connection operations\<close>

lemma length_server_insert [simp]: "length (server_insert s ss) = Suc (length ss)"
  by (induction ss) simp_all

lemma set_server_insert [simp]: "set (server_insert s ss) = insert s (set ss)"
  by (induction ss) auto



lemma length_server_update [simp]: "length (server_update s ss) = length ss"
  by (simp add: server_update_def)



lemma fields_add_event [simp]:
  "servers (add_event e st) = servers st"
  "tries (add_event e st) = tries st"
  "conns (add_event e st) = conns st"
  "queries (add_event e st) = queries st"
  "queries_by_timeout (add_event e st) = queries_by_timeout st"
  "all_queries (add_event e st) = all_queries st"
  "queries_by_qid (add_event e st) = queries_by_qid st"
  by (simp_all add: add_event_def)

lemma fields_invoke_server_state_cb [simp]:
  "servers (invoke_server_state_cb st i ok t) = servers st"
  "tries (invoke_server_state_cb st i ok t) = tries st"
  "conns (invoke_server_state_cb st i ok t) = conns st"
  "queries (invoke_server_state_cb st i ok t) = queries st"
  "queries_by_timeout (invoke_server_state_cb st i ok t) = queries_by_timeout st"
  "all_queries (invoke_server_state_cb st i ok t) = all_queries st"
  "queries_by_qid (invoke_server_state_cb st i ok t) = queries_by_qid st"
  by (simp_all add: invoke_server_state_cb_def)

lemma fields_server_increment_failures [simp]:
  "tries (server_increment_failures env st i t) = tries st"
  "conns (server_increment_failures env st i t) = conns st"
  "queries (server_increment_failures env st i t) = queries st"
  "queries_by_timeout (server_increment_failures env st i t) = queries_by_timeout st"
  "all_queries (server_increment_failures env st i t) = all_queries st"
  "queries_by_qid (server_increment_failures env st i t) = queries_by_qid st"
  by (simp_all add: server_increment_failures_def ares__tvnow_def Let_def split: option.split)







subsection \<open>The dispatcher returns\<close>












subsection \<open>Response handler: server failure responses\<close>













subsection \<open>The invariant of the query table\<close>

lemma in_conn_cong: "conns st' = conns st \<Longrightarrow> in_conn st' = in_conn st"
  by (simp add: in_conn_def fun_eq_iff)

lemma in_conn_update_query [simp]: "in_conn (update_query q f st) = in_conn st"
  by (rule in_conn_cong) (simp add: update_query_def)

lemma in_conn_destroy_timeout [simp]: "in_conn (destroy_node_queries_by_timeout st q) = in_conn st"
  by (rule in_conn_cong) (simp add: destroy_node_queries_by_timeout_def split: option.splits)



lemma timeout_destroy_to_conn [simp]:
  "queries_by_timeout (destroy_node_queries_to_conn st q) = queries_by_timeout st"
  by (simp add: destroy_node_queries_to_conn_def split: option.splits)

lemma timeout_update_query [simp]:
  "queries_by_timeout (update_query q f st) = queries_by_timeout st"
  by (simp add: update_query_def)

lemma next_conn_simps [simp]:
  "next_conn (update_query q f st) = next_conn st"
  "next_conn (destroy_node_queries_by_timeout st q) = next_conn st"
  "next_conn (destroy_node_queries_to_conn st q) = next_conn st"
  by (simp_all add: update_query_def destroy_node_queries_by_timeout_def
      destroy_node_queries_to_conn_def split: option.splits)

lemma conns_None_simps [simp]:
  "conns (update_query q f st) = conns st"
  "conns (destroy_node_queries_by_timeout st q) = conns st"
  "(conns (destroy_node_queries_to_conn st q) c = None) = (conns st c = None)"
  by (simp_all add: update_query_def destroy_node_queries_by_timeout_def
      destroy_node_queries_to_conn_def split: option.splits)

lemma set_timeout_insert [simp]: "set (timeout_insert d q xs) = insert q (set xs)"
  by (induction xs) auto





lemma links_ok_cong:
  assumes "links_ok st"
    and "conns st' = conns st" "next_conn st' = next_conn st" "queries st' = queries st"
    and "queries_by_timeout st' = queries_by_timeout st"
  shows "links_ok st'"
  using assms by (simp add: links_ok_def in_conn_def)










lemma links_ok_other_fields [simp]:
  "links_ok (st\<lparr>queries_by_qid := m\<rparr>) = links_ok st"
  "links_ok (st\<lparr>all_queries := a\<rparr>) = links_ok st"
  "links_ok (st\<lparr>events := e\<rparr>) = links_ok st"
  "links_ok (st\<lparr>servers := s\<rparr>) = links_ok st"
  "links_ok (st\<lparr>clock_reads := k\<rparr>) = links_ok st"
  "links_ok (st\<lparr>rand_state := r\<rparr>) = links_ok st"
  "links_ok (st\<lparr>notify_pending_write := b\<rparr>) = links_ok st"
  by (simp_all add: links_ok_def in_conn_def)

lemma links_ok_add_event [simp]: "links_ok (add_event e st) = links_ok st"
  by (simp add: add_event_def)

lemma links_ok_notify_empty [simp]: "links_ok (ares_queue_notify_empty st) = links_ok st"
  by (simp add: ares_queue_notify_empty_def)

lemma links_ok_invoke_server_state_cb [simp]:
  "links_ok (invoke_server_state_cb st i ok t) = links_ok st"
  by (simp add: invoke_server_state_cb_def)

lemma links_ok_server_increment_failures [simp]:
  "links_ok (server_increment_failures env st i t) = links_ok st"
  by (simp add: server_increment_failures_def ares__tvnow_def Let_def split: option.split)

lemma links_ok_server_set_good [simp]: "links_ok (server_set_good st i t) = links_ok st"
  by (simp add: server_set_good_def Let_def split: option.split)

lemma queries_server_set_good [simp]: "queries (server_set_good st i t) = queries st"
  by (simp add: server_set_good_def Let_def split: option.split)

lemma links_ok_select_server [simp]: "links_ok (snd (select_server env st)) = links_ok st"
  by (simp add: select_server_def ares__random_server_def ares__failover_server_def
      rand_u8_def rand_u16_def ares__tvnow_def Let_def split: option.split prod.split)

lemma links_ok_calc_query_timeout [simp]:
  "links_ok (snd (ares__calc_query_timeout env st x srv now)) = links_ok st"
  by (simp add: ares__calc_query_timeout_def rand_u16_def rand_u8_def Let_def
      split: prod.split)

lemma queries_calc_query_timeout [simp]:
  "queries (snd (ares__calc_query_timeout env st x srv now)) = queries st"
  by (simp add: ares__calc_query_timeout_def rand_u16_def rand_u8_def Let_def
      split: prod.split)







lemma table_inv_except_empty: "table_inv_except st {} = table_inv st"
  by (simp add: table_inv_except_def table_inv_def)



































end
